theory Spec2Isabelle
  imports Complex_Main
begin

section \<open>Numbers\<close>

text \<open>
  The engine computes on JavaScript numbers, IEEE 754 binary64. The engine is modelled on
  the real numbers: every decimal constant of the source (\<open>0.15\<close>, \<open>0.055\<close>, ...) is the
  rational it denotes, and \<open>+\<close>, \<open>*\<close>, \<open>/\<close> are exact. The theorems on this model are chosen
  to survive rounding: they compare values, take \<open>max\<close> with 0, follow the control flow, equate
  the result with the expression the code evaluates, or use that adding a value \<open>\<ge> 0\<close> does
  not make a number smaller, all of which rounding to nearest preserves. Where a claim is
  about an exact value that rounding changes (the sum of the normalized weights), the
  function is modelled a second time with every operation rounded to binary64, see
  \<open>roundDouble\<close> and \<open>normalizeAllocationDouble\<close> below.

  Every division of the source has a divisor that the code keeps away from zero (a test
  for zero, or a \<open>Math.max(.., 1)\<close>), so HOL's \<open>x / 0 = 0\<close> is never reached. Integer-valued
  fields (ages, year indexes, year counts, path counts) are \<open>int\<close> or \<open>nat\<close> as the
  validation schema of \<open>lib/types.ts\<close> declares them.
\<close>

section \<open>Data model (lib/types.ts)\<close>

datatype SpendingRule = Fixed | PctWealth | Guardrails

datatype PhilanthropyMode = PhilFixed | PhilPctWealth

datatype TaxJurisdiction = Custom | Germany | US | GermanyUS

datatype DividendSource = SrcGermany | SrcUS | SrcOther

text \<open>The shape \<open>{public, private, cash}\<close> of \<open>assetAlloc\<close>, \<open>assetReturn\<close> and \<open>assetVol\<close>.\<close>

record Allocation =
  a_public :: real
  a_private :: real
  a_cash :: real

record CashEvent =
  ev_id :: string
  ev_year :: nat
  ev_amount :: real
  ev_label :: "string option"

record PrivateCommitments =
  enabled :: bool
  totalCommitment :: real
  callYears :: nat
  distLagYears :: nat
  distYears :: nat
  distMultiple :: real

record GuardrailsCfg =
  targetPctWealth :: real
  minChange :: real
  maxChange :: real

record HoldingCompanyStructure =
  publicDividendSource :: DividendSource
  privateDividendSource :: DividendSource
  usOwnershipPct :: real
  germanOwnershipPct :: real
  isVermoegensverwaltend :: bool
  germanTradeTaxRate :: real
  usCorporateTaxRate :: real

text \<open>
  The fields of \<open>Params\<close> that the engine reads. (\<open>currency\<close>, \<open>calculationMode\<close>,
  \<open>taxResidences\<close>, \<open>taxResidenceWeights\<close>, \<open>doubleTaxRelief\<close> and \<open>runMonteCarlo\<close> are
  read by the user interface only.)
\<close>

record Params =
  startWealth :: real
  liquidShare :: real
  currentAge :: int
  deathAge :: int
  spendingRule :: SpendingRule
  annualExpenseNow :: real
  expenseInflation :: real
  spendPctWealth :: real
  guardrails :: GuardrailsCfg
  philanthropyMode :: PhilanthropyMode
  philanthropyFixedNow :: real
  philanthropyPercent :: real
  desiredTerminalWealth :: real
  lifetimeSpendingTotal :: real
  realMode :: bool
  taxJurisdiction :: TaxJurisdiction
  taxInterest :: real
  taxDividends :: real
  taxRealizedGains :: real
  holdingCompanyStructure :: HoldingCompanyStructure
  assetAlloc :: Allocation
  assetReturn :: Allocation
  assetVol :: Allocation
  publicDivYield :: real
  publicRealizationRate :: real
  privateRealizationRate :: real
  privCommit :: PrivateCommitments
  numPaths :: nat
  oneOffs :: "CashEvent list"

record SimulationRow =
  year :: nat
  age :: int
  wealth :: real
  liquidWealth :: real
  expense :: real
  philanthropy :: real
  inflows :: real
  outflows :: real
  taxes :: real
  netReturn :: real
  liquidityYears :: real
  dividendIncome :: real
  interestIncome :: real
  publicRealizedGains :: real
  publicUnrealizedGains :: real
  privateRealizedGains :: real
  privateUnrealizedGains :: real
  grossReturnPct :: real
  netReturnPct :: real

record DeterministicResult =
  rows :: "SimulationRow list"
  brokeYear :: int

section \<open>Tax engine (lib/tax.ts)\<close>

definition GERMAN_CORPORATE_TAX_RATE :: real where
  "GERMAN_CORPORATE_TAX_RATE = 15 / 100"

definition GERMAN_SOLIDARITY_SURCHARGE :: real where
  "GERMAN_SOLIDARITY_SURCHARGE = 55 / 1000"

definition GERMAN_DIVIDEND_EXEMPTION_RATE :: real where
  "GERMAN_DIVIDEND_EXEMPTION_RATE = 95 / 100"

definition GERMAN_MIN_OWNERSHIP_FOR_EXEMPTION :: real where
  "GERMAN_MIN_OWNERSHIP_FOR_EXEMPTION = 10 / 100"

definition GERMAN_MIN_OWNERSHIP_FOR_TRADE_TAX_EXEMPTION :: real where
  "GERMAN_MIN_OWNERSHIP_FOR_TRADE_TAX_EXEMPTION = 15 / 100"

definition US_DIVIDEND_WITHHOLDING_STANDARD :: real where
  "US_DIVIDEND_WITHHOLDING_STANDARD = 30 / 100"

definition US_DIVIDEND_WITHHOLDING_TREATY_10PCT :: real where
  "US_DIVIDEND_WITHHOLDING_TREATY_10PCT = 5 / 100"

definition US_DIVIDEND_WITHHOLDING_TREATY_80PCT :: real where
  "US_DIVIDEND_WITHHOLDING_TREATY_80PCT = 0"

definition US_MIN_OWNERSHIP_FOR_5PCT :: real where
  "US_MIN_OWNERSHIP_FOR_5PCT = 10 / 100"

definition US_MIN_OWNERSHIP_FOR_0PCT :: real where
  "US_MIN_OWNERSHIP_FOR_0PCT = 80 / 100"

definition calculateGermanCorporateTaxRate :: "real \<Rightarrow> bool \<Rightarrow> real" where
  "calculateGermanCorporateTaxRate tradeTaxRate isVV =
     (let corporateTax = GERMAN_CORPORATE_TAX_RATE;
          solidaritySurcharge = GERMAN_CORPORATE_TAX_RATE * GERMAN_SOLIDARITY_SURCHARGE;
          tradeTax = (if isVV then 0 else tradeTaxRate)
      in corporateTax + solidaritySurcharge + tradeTax)"

definition calculateUSDividendWithholdingTax :: "real \<Rightarrow> real" where
  "calculateUSDividendWithholdingTax ownershipPct =
     (if ownershipPct \<ge> US_MIN_OWNERSHIP_FOR_0PCT then US_DIVIDEND_WITHHOLDING_TREATY_80PCT
      else if ownershipPct \<ge> US_MIN_OWNERSHIP_FOR_5PCT then US_DIVIDEND_WITHHOLDING_TREATY_10PCT
      else US_DIVIDEND_WITHHOLDING_STANDARD)"

definition calculateGermanDividendTax :: "real \<Rightarrow> real \<Rightarrow> real \<Rightarrow> bool \<Rightarrow> real" where
  "calculateGermanDividendTax dividendAmount ownershipPct tradeTaxRate isVV =
     (let qualifiesForExemption = (ownershipPct \<ge> GERMAN_MIN_OWNERSHIP_FOR_EXEMPTION);
          qualifiesForTradeTaxExemption =
            (ownershipPct \<ge> GERMAN_MIN_OWNERSHIP_FOR_TRADE_TAX_EXEMPTION)
      in if \<not> qualifiesForExemption then
           (let effectiveRate = calculateGermanCorporateTaxRate tradeTaxRate isVV
            in dividendAmount * effectiveRate)
         else
           (let taxableDividend = dividendAmount * (1 - GERMAN_DIVIDEND_EXEMPTION_RATE);
                corporateTax = taxableDividend * GERMAN_CORPORATE_TAX_RATE;
                solidaritySurcharge = corporateTax * GERMAN_SOLIDARITY_SURCHARGE;
                tradeTax =
                  (if \<not> isVV then
                     (if qualifiesForTradeTaxExemption then taxableDividend * tradeTaxRate
                      else dividendAmount * tradeTaxRate)
                   else 0)
            in corporateTax + solidaritySurcharge + tradeTax))"

text \<open>Legacy tax calculation (for custom jurisdiction).\<close>

definition computeCustomTaxes ::
  "Params \<Rightarrow> real \<Rightarrow> Allocation \<Rightarrow> real \<Rightarrow> real \<Rightarrow> real \<Rightarrow> real \<Rightarrow> real" where
  "computeCustomTaxes params baseForReturn allocation pubDivYield publicRealized cashReturn
       privateRealized =
     (let publicBase = baseForReturn * a_public allocation;
          cashBase = baseForReturn * a_cash allocation;
          privateBase = baseForReturn * a_private allocation;
          taxOnDiv = publicBase * pubDivYield * taxDividends params;
          taxOnPublicRealized = publicBase * publicRealized * taxRealizedGains params;
          taxOnCash = cashBase * cashReturn * taxInterest params;
          taxOnPrivate = privateBase * privateRealized * taxRealizedGains params
      in max 0 (taxOnDiv + taxOnPublicRealized + taxOnCash + taxOnPrivate))"

definition computeHoldingCompanyTaxes ::
  "Params \<Rightarrow> real \<Rightarrow> Allocation \<Rightarrow> real \<Rightarrow> real \<Rightarrow> real \<Rightarrow> real \<Rightarrow> real" where
  "computeHoldingCompanyTaxes params baseForReturn allocation pubDivYield publicRealized
       cashReturn privateRealized =
     (if taxJurisdiction params = Custom then
        computeCustomTaxes params baseForReturn allocation pubDivYield publicRealized
          cashReturn privateRealized
      else
        (let publicBase = baseForReturn * a_public allocation;
             cashBase = baseForReturn * a_cash allocation;
             privateBase = baseForReturn * a_private allocation;
             holding = holdingCompanyStructure params;
             publicDividendIncome = publicBase * pubDivYield;
             interestIncome = cashBase * cashReturn;
             publicRealizedGains = publicBase * publicRealized;
             privateRealizedGains = privateBase * privateRealized;
             totalTax =
               (if taxJurisdiction params = Germany \<or> taxJurisdiction params = GermanyUS then
                  (let publicDividendTax =
                         calculateGermanDividendTax publicDividendIncome
                           (germanOwnershipPct holding) (germanTradeTaxRate holding)
                           (isVermoegensverwaltend holding);
                       effectiveGermanRate =
                         calculateGermanCorporateTaxRate (germanTradeTaxRate holding)
                           (isVermoegensverwaltend holding);
                       interestTax = interestIncome * effectiveGermanRate;
                       publicGainsTax = publicRealizedGains * effectiveGermanRate;
                       privateGainsTax = privateRealizedGains * effectiveGermanRate;
                       totalTax1 =
                         0 + (publicDividendTax + interestTax + publicGainsTax + privateGainsTax)
                   in if taxJurisdiction params = GermanyUS then
                        (if publicDividendSource holding = SrcUS then
                           (let usWithholding =
                                  publicDividendIncome
                                    * calculateUSDividendWithholdingTax (usOwnershipPct holding)
                            in totalTax1 + usWithholding)
                         else totalTax1)
                      else totalTax1)
                else if taxJurisdiction params = US then
                  (let dividendIncome = publicDividendIncome;
                       allIncome =
                         dividendIncome + interestIncome + publicRealizedGains
                           + privateRealizedGains
                   in allIncome * usCorporateTaxRate holding)
                else 0)
         in max 0 totalTax))"

text \<open>Legacy liquid tax calculation (for custom jurisdiction).\<close>

definition computeLiquidCustomTaxes ::
  "Params \<Rightarrow> real \<Rightarrow> Allocation \<Rightarrow> real \<Rightarrow> real \<Rightarrow> real \<Rightarrow> real" where
  "computeLiquidCustomTaxes params baseForReturn allocation pubDivYield publicRealized
       cashReturn =
     (let publicBase = baseForReturn * a_public allocation;
          cashBase = baseForReturn * a_cash allocation;
          taxOnDiv = publicBase * pubDivYield * taxDividends params;
          taxOnPublicRealized = publicBase * publicRealized * taxRealizedGains params;
          taxOnCash = cashBase * cashReturn * taxInterest params
      in max 0 (taxOnDiv + taxOnPublicRealized + taxOnCash))"

text \<open>Taxes on the liquid assets only (public + cash).\<close>

definition computeLiquidHoldingCompanyTaxes ::
  "Params \<Rightarrow> real \<Rightarrow> Allocation \<Rightarrow> real \<Rightarrow> real \<Rightarrow> real \<Rightarrow> real" where
  "computeLiquidHoldingCompanyTaxes params baseForReturn allocation pubDivYield publicRealized
       cashReturn =
     (if taxJurisdiction params = Custom then
        computeLiquidCustomTaxes params baseForReturn allocation pubDivYield publicRealized
          cashReturn
      else
        (let publicBase = baseForReturn * a_public allocation;
             cashBase = baseForReturn * a_cash allocation;
             holding = holdingCompanyStructure params;
             publicDividendIncome = publicBase * pubDivYield;
             interestIncome = cashBase * cashReturn;
             publicRealizedGains = publicBase * publicRealized;
             totalTax =
               (if taxJurisdiction params = Germany \<or> taxJurisdiction params = GermanyUS then
                  (let publicDividendTax =
                         calculateGermanDividendTax publicDividendIncome
                           (germanOwnershipPct holding) (germanTradeTaxRate holding)
                           (isVermoegensverwaltend holding);
                       effectiveGermanRate =
                         calculateGermanCorporateTaxRate (germanTradeTaxRate holding)
                           (isVermoegensverwaltend holding);
                       interestTax = interestIncome * effectiveGermanRate;
                       publicGainsTax = publicRealizedGains * effectiveGermanRate;
                       totalTax1 = 0 + (publicDividendTax + interestTax + publicGainsTax)
                   in if taxJurisdiction params = GermanyUS
                         \<and> publicDividendSource holding = SrcUS then
                        (let usWithholding =
                               publicDividendIncome
                                 * calculateUSDividendWithholdingTax (usOwnershipPct holding)
                         in totalTax1 + usWithholding)
                      else totalTax1)
                else if taxJurisdiction params = US then
                  (let allIncome = publicDividendIncome + interestIncome + publicRealizedGains
                   in allIncome * usCorporateTaxRate holding)
                else 0)
         in max 0 totalTax))"

section \<open>Simulation engine (lib/simulation.ts)\<close>

definition MAX_MONTE_CARLO_PATHS :: nat where
  "MAX_MONTE_CARLO_PATHS = 2000"

definition clamp :: "real \<Rightarrow> real \<Rightarrow> real \<Rightarrow> real" where
  "clamp v mn mx = max mn (min mx v)"

definition normalizeAllocation :: "Allocation \<Rightarrow> Allocation" where
  "normalizeAllocation alloc =
     (let total = a_public alloc + a_private alloc + a_cash alloc
      in if total = 0 then alloc
         else \<lparr> a_public = a_public alloc / total,
                a_private = a_private alloc / total,
                a_cash = a_cash alloc / total \<rparr>)"

subsection \<open>Private commitment schedule\<close>

record PrivateSchedule =
  calls :: "real list"
  distributions :: "real list"

text \<open>
  \<open>arr[i] = v\<close> on a JavaScript array: inside the array the slot is overwritten, beyond its
  end the array grows up to index \<open>i\<close>. (The slots in between are holes; the simulator reads
  every slot through \<open>?? 0\<close>, so a hole is written here as \<open>0\<close>.)
\<close>

definition array_set :: "real list \<Rightarrow> nat \<Rightarrow> real \<Rightarrow> real list" where
  "array_set arr i v =
     (if i < length arr then arr[i := v] else arr @ replicate (i - length arr) 0 @ [v])"

text \<open>The loop \<open>for (let y = start; y < final; y++) arr[y] = v\<close>.\<close>

function fillFrom :: "real list \<Rightarrow> nat \<Rightarrow> int \<Rightarrow> real \<Rightarrow> real list" where
  "fillFrom arr y final v =
     (if int y < final then fillFrom (array_set arr y v) (Suc y) final v else arr)"
  by pat_completeness auto
termination
  by (relation "measure (\<lambda>(arr, y, final, v). nat (final - int y))") auto

definition generatePrivateSchedules :: "PrivateCommitments \<Rightarrow> nat \<Rightarrow> PrivateSchedule" where
  "generatePrivateSchedules pc years =
     (let calls0 = replicate (years + 1) (0::real);
          distributions0 = replicate (years + 1) (0::real)
      in if \<not> enabled pc \<or> totalCommitment pc \<le> 0 then
           \<lparr> calls = calls0, distributions = distributions0 \<rparr>
         else
           (let effectiveCallYears = min (int (callYears pc)) (int years + 1);
                callPerYear = totalCommitment pc / real_of_int (max effectiveCallYears 1);
                calls1 = fillFrom calls0 0 effectiveCallYears callPerYear;
                totalCalled = callPerYear * real_of_int effectiveCallYears;
                totalReturn = totalCalled * distMultiple pc;
                distYears' =
                  max 1 (min (int (distYears pc)) (int years + 1 - int (distLagYears pc)));
                distPerYear = totalReturn / real_of_int distYears';
                start = distLagYears pc;
                finalYear = min (int start + distYears') (int years + 1);
                distributions1 = fillFrom distributions0 start finalYear distPerYear
            in \<lparr> calls = calls1, distributions = distributions1 \<rparr>))"

subsection \<open>Cashflow aggregators\<close>

definition computeSpending :: "Params \<Rightarrow> real \<Rightarrow> nat \<Rightarrow> real \<Rightarrow> real" where
  "computeSpending params w yearIndex lastYearSpend =
     (case spendingRule params of
        PctWealth \<Rightarrow> spendPctWealth params * w
      | Guardrails \<Rightarrow>
          (let target = targetPctWealth (guardrails params) * w;
               inflation = (if realMode params then 0 else expenseInflation params);
               minSpend = lastYearSpend * (1 + inflation + minChange (guardrails params));
               maxSpend = lastYearSpend * (1 + inflation + maxChange (guardrails params))
           in clamp target (min minSpend maxSpend) (max minSpend maxSpend))
      | Fixed \<Rightarrow>
          (let inflation = (if realMode params then 0 else expenseInflation params)
           in annualExpenseNow params * (1 + inflation) ^ yearIndex))"

definition computePhilanthropy :: "Params \<Rightarrow> real \<Rightarrow> nat \<Rightarrow> real" where
  "computePhilanthropy params w yearIndex =
     (if philanthropyMode params = PhilPctWealth then philanthropyPercent params * w
      else (let inflation = (if realMode params then 0 else expenseInflation params)
            in philanthropyFixedNow params * (1 + inflation) ^ yearIndex))"

text \<open>Returns the pair \<open>(inflows, outflows)\<close>.\<close>

definition sumOneOffs :: "Params \<Rightarrow> nat \<Rightarrow> real \<times> real" where
  "sumOneOffs params yearIndex =
     (let events = filter (\<lambda>event. ev_year event = yearIndex) (oneOffs params);
          inflows = foldl (\<lambda>acc curr. acc + ev_amount curr) 0
                      (filter (\<lambda>event. ev_amount event > 0) events);
          outflows = foldl (\<lambda>acc curr. acc + \<bar>ev_amount curr\<bar>) 0
                       (filter (\<lambda>event. ev_amount event < 0) events)
      in (inflows, outflows))"

definition computeTaxes ::
  "Params \<Rightarrow> real \<Rightarrow> Allocation \<Rightarrow> real \<Rightarrow> real \<Rightarrow> real \<Rightarrow> real \<Rightarrow> real" where
  "computeTaxes = computeHoldingCompanyTaxes"

definition computeLiquidTaxes ::
  "Params \<Rightarrow> real \<Rightarrow> Allocation \<Rightarrow> real \<Rightarrow> real \<Rightarrow> real \<Rightarrow> real" where
  "computeLiquidTaxes = computeLiquidHoldingCompanyTaxes"

subsection \<open>Deterministic simulator\<close>

text \<open>\<open>arr[i] ?? 0\<close>: a read beyond the end of the array gives \<open>undefined\<close>, hence \<open>0\<close>.\<close>

definition nth_or_zero :: "real list \<Rightarrow> nat \<Rightarrow> real" where
  "nth_or_zero arr i = (if i < length arr then arr ! i else 0)"

text \<open>
  The body of the year loop of \<open>simulateDeterministic\<close>, up to \<open>rows.push\<close>: the row of year
  \<open>yearIndex\<close>, computed from the loop state \<open>wealth\<close>, \<open>liquidWealth\<close>, \<open>lastYearSpend\<close>
  (here \<open>w\<close>, \<open>lw\<close>, \<open>lastYearSpend\<close>). The row carries the new \<open>wealth\<close> and \<open>liquidWealth\<close>.
\<close>

definition simulateYear ::
  "Params \<Rightarrow> Allocation \<Rightarrow> real list \<Rightarrow> real list \<Rightarrow> nat \<Rightarrow> real \<Rightarrow> real \<Rightarrow> real
     \<Rightarrow> SimulationRow" where
  "simulateYear params allocation privateCalls privateDistributions yearIndex w lw lastYearSpend =
     (let age1 = currentAge params + int yearIndex;
          expense1 = computeSpending params w yearIndex lastYearSpend;
          philanthropy1 = computePhilanthropy params w yearIndex;
          oneOffs1 = sumOneOffs params yearIndex;
          privateCall = nth_or_zero privateCalls yearIndex;
          privateDistribution = nth_or_zero privateDistributions yearIndex;
          totalOutflowsPreTax = expense1 + philanthropy1 + snd oneOffs1 + privateCall;
          totalInflowsPreTax = fst oneOffs1 + privateDistribution;
          baseForReturn = max 0 (w - 0.5 * totalOutflowsPreTax + 0.5 * totalInflowsPreTax);
          publicReturn = a_public (assetReturn params);
          pubDivYield = publicDivYield params;
          publicPriceReturn = max 0 (publicReturn - pubDivYield);
          publicRealized = publicRealizationRate params * publicPriceReturn;
          cashReturn = a_cash (assetReturn params);
          privateReturn = a_private (assetReturn params);
          privateRealized = privateRealizationRate params * max 0 privateReturn;
          grossReturn =
            a_public allocation * publicReturn + a_private allocation * privateReturn
              + a_cash allocation * cashReturn;
          taxes1 = computeTaxes params baseForReturn allocation pubDivYield publicRealized
                     cashReturn privateRealized;
          liquidTaxes = computeLiquidTaxes params baseForReturn allocation pubDivYield
                          publicRealized cashReturn;
          netReturn1 = baseForReturn * grossReturn - taxes1;
          wealth1 = w + totalInflowsPreTax + netReturn1 - totalOutflowsPreTax;
          publicBase = baseForReturn * a_public allocation;
          cashBase = baseForReturn * a_cash allocation;
          privateBase = baseForReturn * a_private allocation;
          dividendIncome1 = publicBase * pubDivYield;
          interestIncome1 = cashBase * cashReturn;
          publicUnrealizedGains1 = publicBase * max 0 (publicPriceReturn - publicRealized);
          publicRealizedGains1 = publicBase * publicRealized;
          privateUnrealizedGains1 = privateBase * max 0 (privateReturn - privateRealized);
          privateRealizedGains1 = privateBase * privateRealized;
          liquidBefore = lw;
          liquidReturn =
            baseForReturn * (a_public allocation * publicReturn + a_cash allocation * cashReturn);
          liquidAfter =
            liquidBefore + totalInflowsPreTax - privateCall - expense1 - philanthropy1
              - snd oneOffs1 + liquidReturn - liquidTaxes;
          liquidWealth1 = max 0 liquidAfter;
          liquidityYears1 = liquidWealth1 / max 1 (expense1 + philanthropy1);
          grossReturnPct1 = (if baseForReturn > 0 then grossReturn else 0);
          netReturnPct1 = (if baseForReturn > 0 then netReturn1 / baseForReturn else 0)
      in \<lparr> year = yearIndex, age = age1, wealth = wealth1, liquidWealth = liquidWealth1,
           expense = expense1, philanthropy = philanthropy1, inflows = totalInflowsPreTax,
           outflows = totalOutflowsPreTax, taxes = taxes1, netReturn = netReturn1,
           liquidityYears = liquidityYears1, dividendIncome = dividendIncome1,
           interestIncome = interestIncome1, publicRealizedGains = publicRealizedGains1,
           publicUnrealizedGains = publicUnrealizedGains1,
           privateRealizedGains = privateRealizedGains1,
           privateUnrealizedGains = privateUnrealizedGains1,
           grossReturnPct = grossReturnPct1, netReturnPct = netReturnPct1 \<rparr>)"

text \<open>
  The year loop \<open>for (yearIndex = 0; yearIndex <= years; yearIndex++)\<close>, entered at
  \<open>yearIndex\<close> with the loop state \<open>w\<close>, \<open>lw\<close>, \<open>lastYearSpend\<close>: the rows pushed from this
  iteration on. After the push the state is the row's \<open>wealth\<close>, \<open>liquidWealth\<close> and
  \<open>expense\<close>, and the loop breaks when the new wealth is \<open>\<le> 0\<close>.
\<close>

function yearLoop ::
  "Params \<Rightarrow> nat \<Rightarrow> Allocation \<Rightarrow> real list \<Rightarrow> real list \<Rightarrow> nat \<Rightarrow> real \<Rightarrow> real \<Rightarrow> real
     \<Rightarrow> SimulationRow list" where
  "yearLoop params years allocation privateCalls privateDistributions yearIndex w lw
       lastYearSpend =
     (if yearIndex \<le> years then
        (let row = simulateYear params allocation privateCalls privateDistributions yearIndex
                     w lw lastYearSpend
         in if wealth row \<le> 0 then [row]
            else row # yearLoop params years allocation privateCalls privateDistributions
                         (Suc yearIndex) (wealth row) (liquidWealth row) (expense row))
      else [])"
  by pat_completeness auto
termination
  by (relation "measure (\<lambda>(params, years, allocation, pc, pd, yearIndex, w, lw, l).
                           Suc years - yearIndex)") auto

text \<open>\<open>Array.prototype.findIndex\<close>: the first index whose element satisfies \<open>P\<close>, or \<open>-1\<close>.\<close>

fun findIndex :: "('a \<Rightarrow> bool) \<Rightarrow> 'a list \<Rightarrow> int" where
  "findIndex P [] = - 1"
| "findIndex P (x # xs) =
     (if P x then 0 else (let r = findIndex P xs in if r = - 1 then - 1 else r + 1))"

definition horizonYears :: "Params \<Rightarrow> nat" where
  "horizonYears params = nat (max 1 (deathAge params - currentAge params))"

text \<open>
  \<open>simulateDeterministic\<close> first spreads its input over \<open>DEFAULT_PARAMS\<close> (of \<open>lib/defaults\<close>),
  field by field and sub-record by sub-record. A \<open>Params\<close> value has every field, so each
  default is overridden and the merged record is the input itself.
\<close>

definition simulateDeterministic :: "Params \<Rightarrow> DeterministicResult" where
  "simulateDeterministic params =
     (let years = horizonYears params;
          allocation = normalizeAllocation (assetAlloc params);
          schedule = generatePrivateSchedules (privCommit params) years;
          rows1 = yearLoop params years allocation (calls schedule) (distributions schedule) 0
                    (startWealth params)
                    (startWealth params * clamp (liquidShare params) 0 1)
                    (annualExpenseNow params);
          brokeYear1 = findIndex (\<lambda>row. wealth row \<le> 0) rows1
      in \<lparr> rows = rows1, brokeYear = brokeYear1 \<rparr>)"

subsection \<open>Monte Carlo engine\<close>

record MonteCarloBands =
  band5 :: "real list"
  band25 :: "real list"
  band50 :: "real list"
  band75 :: "real list"
  band95 :: "real list"

record MonteCarloResult =
  paths :: "real list list"
  bands :: MonteCarloBands
  ruinProbability :: real

text \<open>
  \<open>while (trajectory.length < n) trajectory.push(trajectory[trajectory.length - 1] ?? 0)\<close>
\<close>

function padTrajectory :: "real list \<Rightarrow> nat \<Rightarrow> real list" where
  "padTrajectory trajectory n =
     (if length trajectory < n then
        padTrajectory (trajectory @ [if trajectory = [] then 0 else last trajectory]) n
      else trajectory)"
  by pat_completeness auto
termination
  by (relation "measure (\<lambda>(trajectory, n). n - length trajectory)") auto

text \<open>
  One quantile of \<open>computePercentiles\<close>:
  \<open>sorted[floor((q / 100) * (sorted.length - 1))] ?? sorted[sorted.length - 1] ?? 0\<close>.
\<close>

definition percentile :: "real list \<Rightarrow> real \<Rightarrow> real" where
  "percentile values q =
     (let sorted = sort values;
          index = \<lfloor>(q / 100) * (real (length sorted) - 1)\<rfloor>
      in if 0 \<le> index \<and> index < int (length sorted) then sorted ! nat index
         else if sorted \<noteq> [] then last sorted
         else 0)"

definition computePercentiles :: "real list \<Rightarrow> real list \<Rightarrow> real list" where
  "computePercentiles values quantiles = map (\<lambda>q. percentile values q) quantiles"

text \<open>
  \<open>boxMuller()\<close> reads the ambient random generator. The engine is modelled with the
  sequence of its results as a parameter: \<open>draws k\<close> is what the \<open>k\<close>-th call returns. Path
  \<open>pathIdx\<close> makes the calls \<open>3 * pathIdx\<close>, \<open>3 * pathIdx + 1\<close>, \<open>3 * pathIdx + 2\<close> (public,
  private, cash).
\<close>

definition randomizedParams :: "Params \<Rightarrow> (nat \<Rightarrow> real) \<Rightarrow> nat \<Rightarrow> Params" where
  "randomizedParams params draws pathIdx =
     params\<lparr> assetReturn :=
       \<lparr> a_public = a_public (assetReturn params)
                      + a_public (assetVol params) * draws (3 * pathIdx),
         a_private = a_private (assetReturn params)
                       + a_private (assetVol params) * draws (3 * pathIdx + 1),
         a_cash = a_cash (assetReturn params)
                    + a_cash (assetVol params) * draws (3 * pathIdx + 2) \<rparr> \<rparr>"

text \<open>One iteration of the path loop: the trajectory pushed onto \<open>paths\<close>.\<close>

definition monteCarloPath ::
  "Params \<Rightarrow> (nat \<Rightarrow> real) \<Rightarrow> Allocation \<Rightarrow> nat \<Rightarrow> nat \<Rightarrow> real list" where
  "monteCarloPath params draws allocation years pathIdx =
     (let randomized = randomizedParams params draws pathIdx;
          result = simulateDeterministic (randomized\<lparr> assetAlloc := allocation \<rparr>);
          trajectory = map wealth (rows result)
      in padTrajectory trajectory (years + 1))"

text \<open>The five values pushed onto the bands at \<open>yearIdx\<close>, in the order 5, 25, 50, 75, 95.\<close>

definition bandValues :: "real list list \<Rightarrow> nat \<Rightarrow> real list" where
  "bandValues ps yearIdx =
     (let values = map (\<lambda>trajectory. nth_or_zero trajectory yearIdx) ps
      in map (\<lambda>v. max 0 v) (computePercentiles values [5, 25, 50, 75, 95]))"

text \<open>The loop \<open>for (const trajectory of paths) if (...) ruinCount += 1\<close>.\<close>

definition countRuined :: "real list list \<Rightarrow> nat" where
  "countRuined ps =
     foldl (\<lambda>ruinCount trajectory.
              if findIndex (\<lambda>w. w \<le> 0) trajectory \<noteq> - 1 then ruinCount + 1 else ruinCount)
       0 ps"

definition simulateMonteCarlo :: "Params \<Rightarrow> (nat \<Rightarrow> real) \<Rightarrow> MonteCarloResult" where
  "simulateMonteCarlo params draws =
     (let allocation = normalizeAllocation (assetAlloc params);
          years = horizonYears params;
          numPaths1 = min (numPaths params) MAX_MONTE_CARLO_PATHS;
          paths1 = map (\<lambda>pathIdx. monteCarloPath params draws allocation years pathIdx)
                     [0 ..< numPaths1];
          perYear = map (\<lambda>yearIdx. bandValues paths1 yearIdx) [0 ..< years + 1];
          bands1 = \<lparr> band5 = map (\<lambda>vs. vs ! 0) perYear, band25 = map (\<lambda>vs. vs ! 1) perYear,
                     band50 = map (\<lambda>vs. vs ! 2) perYear, band75 = map (\<lambda>vs. vs ! 3) perYear,
                     band95 = map (\<lambda>vs. vs ! 4) perYear \<rparr>;
          ruinCount = countRuined paths1
      in \<lparr> paths = paths1, bands = bands1,
           ruinProbability = (if numPaths1 = 0 then 0 else real ruinCount / real numPaths1) \<rparr>)"

subsection \<open>Reverse solver\<close>

record ReverseCalculationResult =
  requiredStartingWealth :: real
  calculatedTerminalWealth :: real
  totalSpending :: real
  totalPhilanthropy :: real
  totalTaxes :: real
  totalReturns :: real
  r_rows :: "SimulationRow list"

definition tolerance :: real where
  "tolerance = 1000"

definition maxIterations :: nat where
  "maxIterations = 50"

text \<open>\<open>result.rows[result.rows.length - 1]?.wealth ?? 0\<close>\<close>

definition finalWealthOf :: "SimulationRow list \<Rightarrow> real" where
  "finalWealthOf rs = (if rs = [] then 0 else wealth (last rs))"

text \<open>The search bounds \<open>(low, high)\<close> with which the loop is entered.\<close>

definition initialBounds :: "Params \<Rightarrow> real \<times> real" where
  "initialBounds params =
     (let low = 0; high = 1000000000
      in if lifetimeSpendingTotal params > 0 then
           (let roughEstimate = lifetimeSpendingTotal params + desiredTerminalWealth params;
                high1 = max high (roughEstimate * 2);
                low1 = max 0 (roughEstimate * 0.5)
            in (low1, high1))
         else (low, high))"

text \<open>
  The loop \<open>for (let iter = 0; iter < maxIterations; iter++)\<close>, entered at \<open>iter\<close> with the
  variables \<open>low\<close>, \<open>high\<close>, \<open>bestGuess\<close>, \<open>bestResult\<close>. It returns \<open>bestGuess\<close>, \<open>bestResult\<close>
  and the value of \<open>iter\<close> at which the loop was left: at a \<open>break\<close> this is the index of the
  iteration that broke, otherwise \<open>maxIterations\<close>.
\<close>

function searchLoop ::
  "Params \<Rightarrow> nat \<Rightarrow> real \<Rightarrow> real \<Rightarrow> real \<Rightarrow> DeterministicResult option
     \<Rightarrow> real \<times> DeterministicResult option \<times> nat" where
  "searchLoop params iter low high bestGuess bestResult =
     (if iter < maxIterations then
        (let guess = (low + high) / 2;
             testParams = params\<lparr> startWealth := guess \<rparr>;
             result = simulateDeterministic testParams;
             finalWealth = finalWealthOf (rows result);
             diff = finalWealth - desiredTerminalWealth params
         in if \<bar>diff\<bar> < tolerance then (guess, Some result, iter)
            else if diff > 0 then searchLoop params (Suc iter) low guess guess (Some result)
            else searchLoop params (Suc iter) guess high guess (Some result))
      else (bestGuess, bestResult, iter))"
  by pat_completeness auto
termination
  by (relation "measure (\<lambda>(params, iter, low, high, bestGuess, bestResult).
                           maxIterations - iter)") auto

definition calculateReverse :: "Params \<Rightarrow> ReverseCalculationResult" where
  "calculateReverse params =
     (case searchLoop params 0 (fst (initialBounds params)) (snd (initialBounds params)) 0 None
      of (bestGuess, bestResultOpt, iter) \<Rightarrow>
        (let bestResult =
               (case bestResultOpt of
                  None \<Rightarrow> simulateDeterministic (params\<lparr> startWealth := bestGuess \<rparr>)
                | Some r \<Rightarrow> r)
         in \<lparr> requiredStartingWealth = bestGuess,
              calculatedTerminalWealth = finalWealthOf (rows bestResult),
              totalSpending = foldl (\<lambda>sum row. sum + expense row) 0 (rows bestResult),
              totalPhilanthropy = foldl (\<lambda>sum row. sum + philanthropy row) 0 (rows bestResult),
              totalTaxes = foldl (\<lambda>sum row. sum + taxes row) 0 (rows bestResult),
              totalReturns = foldl (\<lambda>sum row. sum + netReturn row) 0 (rows bestResult),
              r_rows = rows bestResult \<rparr>))"

section \<open>Binary64 arithmetic, and the normalizer in it\<close>

text \<open>
  Rounding to nearest, ties to even, of a real number to an IEEE 754 binary64 value. A
  positive \<open>x\<close> is first brought to the form \<open>m * 2^e\<close> with \<open>1 \<le> m < 2\<close>, or with \<open>m < 1\<close> at
  the lowest exponent \<open>e = -1022\<close> (the subnormal range): \<open>scaleDown\<close> halves while \<open>x \<ge> 2\<close>,
  \<open>scaleUp\<close> doubles while \<open>x < 1\<close> and the exponent is above -1022. The 53-bit significand
  \<open>m * 2^52\<close> is then rounded to an integer. Overflow is not modelled: a result of magnitude
  \<open>2^1024\<close> or more, which binary64 replaces by an infinity, is rounded like any other, and
  the statements below are restricted to totals below \<open>2^1024\<close>.
\<close>

function scaleDown :: "real \<Rightarrow> int \<Rightarrow> real \<times> int" where
  "scaleDown x e = (if 2 \<le> x then scaleDown (x / 2) (e + 1) else (x, e))"
  by pat_completeness auto
termination
proof (relation "measure (\<lambda>(x, e). nat \<lfloor>x\<rfloor>)")
  show "wf (measure (\<lambda>(x, e). nat \<lfloor>x\<rfloor>))" by simp
next
  fix x :: real and e :: int
  assume "2 \<le> x"
  then have "\<lfloor>x / 2\<rfloor> < \<lfloor>x\<rfloor>" "0 < \<lfloor>x\<rfloor>" by linarith+
  then show "((x / 2, e + 1), (x, e)) \<in> measure (\<lambda>(x, e). nat \<lfloor>x\<rfloor>)" by simp
qed

function scaleUp :: "real \<Rightarrow> int \<Rightarrow> real \<times> int" where
  "scaleUp x e = (if x < 1 \<and> - 1022 < e then scaleUp (x * 2) (e - 1) else (x, e))"
  by pat_completeness auto
termination
  by (relation "measure (\<lambda>(x, e). nat (e + 1022))") auto

definition roundHalfEven :: "real \<Rightarrow> int" where
  "roundHalfEven y =
     (let f = \<lfloor>y\<rfloor>; d = y - of_int f
      in if d < 1 / 2 then f else if 1 / 2 < d then f + 1 else if even f then f else f + 1)"

definition roundDouble :: "real \<Rightarrow> real" where
  "roundDouble x =
     (if x = 0 then 0
      else (case scaleDown \<bar>x\<bar> 0 of (y, e0) \<Rightarrow>
              (case scaleUp y e0 of (m, e) \<Rightarrow>
                 sgn x * of_int (roundHalfEven (m * 2 ^ 52)) * 2 powi (e - 52))))"

text \<open>The operations \<open>x + y\<close> and \<open>x / y\<close> on doubles: the exact result, rounded.\<close>

definition fadd :: "real \<Rightarrow> real \<Rightarrow> real" where
  "fadd x y = roundDouble (x + y)"

definition fdiv :: "real \<Rightarrow> real \<Rightarrow> real" where
  "fdiv x y = roundDouble (x / y)"

text \<open>
  The doubles are the fixed points of the rounding below \<open>2^1024\<close>. The smallest normal
  number is \<open>2^-1022\<close>, the unit roundoff \<open>2^-53\<close>; every double is an integer multiple of
  the smallest subnormal number \<open>2^-1074\<close>.
\<close>

definition isDouble :: "real \<Rightarrow> bool" where
  "isDouble x \<longleftrightarrow> roundDouble x = x \<and> \<bar>x\<bar> < 2 ^ 1024"

definition minNormal :: real where
  "minNormal = 2 powi (- 1022)"

definition unitRoundoff :: real where
  "unitRoundoff = 1 / 2 ^ 53"

definition quantum :: real where
  "quantum = 2 powi (- 1074)"

definition onGrid :: "real \<Rightarrow> bool" where
  "onGrid x \<longleftrightarrow> (\<exists>k::int. x = of_int k * quantum)"

text \<open>
  \<open>normalizeAllocation\<close> of \<open>lib/simulation.ts\<close> as it runs: the total is
  \<open>(public + private) + cash\<close> in doubles, and each weight is divided by it in doubles.
\<close>

definition normalizeAllocationDouble :: "Allocation \<Rightarrow> Allocation" where
  "normalizeAllocationDouble alloc =
     (let total = fadd (fadd (a_public alloc) (a_private alloc)) (a_cash alloc)
      in if total = 0 then alloc
         else \<lparr> a_public = fdiv (a_public alloc) total,
                a_private = fdiv (a_private alloc) total,
                a_cash = fdiv (a_cash alloc) total \<rparr>)"

section \<open>Valid scenarios\<close>




section \<open>The private schedule as the specification words it\<close>

text \<open>
  These three functions are not translated from the code. They write down, slot by slot,
  the schedule that the specification describes, to be compared with the arrays that
  \<open>generatePrivateSchedules\<close> fills: the call of year \<open>i\<close>, the number of distribution
  years \<open>max(1, min(distYears, years + 1 - distLagYears))\<close>, and the distribution of year \<open>i\<close>.
\<close>

definition claimedCall :: "PrivateCommitments \<Rightarrow> nat \<Rightarrow> nat \<Rightarrow> real" where
  "claimedCall pc years i =
     (if i < min (callYears pc) (years + 1)
      then totalCommitment pc / real (max (min (callYears pc) (years + 1)) 1)
      else 0)"

definition claimedSpan :: "PrivateCommitments \<Rightarrow> nat \<Rightarrow> nat" where
  "claimedSpan pc years =
     nat (max 1 (min (int (distYears pc)) (int years + 1 - int (distLagYears pc))))"

definition claimedDistribution :: "PrivateCommitments \<Rightarrow> nat \<Rightarrow> nat \<Rightarrow> real" where
  "claimedDistribution pc years i =
     (if distLagYears pc \<le> i \<and> i < distLagYears pc + claimedSpan pc years
      then (totalCommitment pc / real (max (min (callYears pc) (years + 1)) 1)
              * real (min (callYears pc) (years + 1)) * distMultiple pc)
           / real (claimedSpan pc years)
      else 0)"

section \<open>Sample scenarios\<close>

text \<open>
  A scenario inside the ranges of the validation schema, with a one-year horizon, no
  spending, no philanthropy, no one-off events and private commitments switched off. The
  concrete instances below vary it by record update.
\<close>

definition exampleParams :: Params where
  "exampleParams =
     \<lparr> startWealth = 1000, liquidShare = 6 / 10, currentAge = 40, deathAge = 41,
       spendingRule = Fixed, annualExpenseNow = 0, expenseInflation = 2 / 100,
       spendPctWealth = 4 / 100,
       guardrails = \<lparr> targetPctWealth = 4 / 100, minChange = - 5 / 100, maxChange = 5 / 100 \<rparr>,
       philanthropyMode = PhilFixed, philanthropyFixedNow = 0, philanthropyPercent = 0,
       desiredTerminalWealth = 0, lifetimeSpendingTotal = 0, realMode = True,
       taxJurisdiction = Custom, taxInterest = 30 / 100, taxDividends = 25 / 100,
       taxRealizedGains = 25 / 100,
       holdingCompanyStructure =
         \<lparr> publicDividendSource = SrcOther, privateDividendSource = SrcOther,
           usOwnershipPct = 10 / 100, germanOwnershipPct = 10 / 100,
           isVermoegensverwaltend = True, germanTradeTaxRate = 14 / 100,
           usCorporateTaxRate = 21 / 100 \<rparr>,
       assetAlloc = \<lparr> a_public = 5 / 10, a_private = 3 / 10, a_cash = 2 / 10 \<rparr>,
       assetReturn = \<lparr> a_public = 6 / 100, a_private = 8 / 100, a_cash = 3 / 100 \<rparr>,
       assetVol = \<lparr> a_public = 15 / 100, a_private = 20 / 100, a_cash = 1 / 100 \<rparr>,
       publicDivYield = 2 / 100, publicRealizationRate = 25 / 100,
       privateRealizationRate = 20 / 100,
       privCommit = \<lparr> enabled = False, totalCommitment = 0, callYears = 4, distLagYears = 2,
                      distYears = 4, distMultiple = 2 \<rparr>,
       numPaths = 100, oneOffs = [] \<rparr>"

text \<open>An allocation with everything in cash.\<close>

definition cashOnly :: Allocation where
  "cashOnly = \<lparr> a_public = 0, a_private = 0, a_cash = 1 \<rparr>"

text \<open>The sample scenario spending 2000 a year out of a wealth of 1000.\<close>

definition overspending :: Params where
  "overspending = exampleParams\<lparr> annualExpenseNow := 2000 \<rparr>"

text \<open>
  The commitment of the unit test and of the specification's example: 2,000,000 called over
  4 years, with the lag, the distribution years and the multiple left open.
\<close>

definition testCommitment :: "nat \<Rightarrow> nat \<Rightarrow> real \<Rightarrow> PrivateCommitments" where
  "testCommitment lag dy m =
     \<lparr> enabled = True, totalCommitment = 2000000, callYears = 4, distLagYears = lag,
       distYears = dy, distMultiple = m \<rparr>"

text \<open>
  The sample scenario with two Monte Carlo paths (fewer than the schema's minimum of 100, to
  keep the instance small), and a sequence of draws whose first three values (the three
  draws of path 0) are twenty standard deviations down.
\<close>

definition twoPaths :: Params where
  "twoPaths = exampleParams\<lparr> numPaths := 2 \<rparr>"

definition crashFirst :: "nat \<Rightarrow> real" where
  "crashFirst k = (if k < 3 then - 20 else 0)"

text \<open>
  The sample scenario with a terminal-wealth goal that a starting wealth of 125,000,000
  meets within the tolerance, and the same with a lifetime spending total of 2,000,000,000.
\<close>

definition reverseGoal :: Params where
  "reverseGoal = exampleParams\<lparr> desiredTerminalWealth := 138667000 \<rparr>"

definition spendingGoal :: Params where
  "spendingGoal = reverseGoal\<lparr> lifetimeSpendingTotal := 2000000000 \<rparr>"



text \<open>The weights 60 : 30 : 10.\<close>

definition sixtyThirtyTen :: Allocation where
  "sixtyThirtyTen = \<lparr> a_public = 60, a_private = 30, a_cash = 10 \<rparr>"


section \<open>The tax engine: floors, the custom jurisdiction, German dividends\<close>

lemmas german_constants =
  GERMAN_CORPORATE_TAX_RATE_def GERMAN_SOLIDARITY_SURCHARGE_def
  GERMAN_DIVIDEND_EXEMPTION_RATE_def GERMAN_MIN_OWNERSHIP_FOR_EXEMPTION_def
  GERMAN_MIN_OWNERSHIP_FOR_TRADE_TAX_EXEMPTION_def

text \<open>
  Claim C1, as the code has it. In the custom jurisdiction the full-portfolio entry point
  returns the sum of the four per-bucket terms floored at zero: the sum itself whenever the
  sum is \<open>\<ge> 0\<close> (a negative cash-interest term included), and 0 when the sum is negative.
\<close>

theorem custom_tax_is_floored_sum:
  assumes "taxJurisdiction p = Custom"
  shows "computeHoldingCompanyTaxes p b a dy pr cr prr =
           max 0 (b * a_public a * dy * taxDividends p
                  + b * a_public a * pr * taxRealizedGains p
                  + b * a_cash a * cr * taxInterest p
                  + b * a_private a * prr * taxRealizedGains p)
       \<and> (0 \<le> b * a_public a * dy * taxDividends p
                + b * a_public a * pr * taxRealizedGains p
                + b * a_cash a * cr * taxInterest p
                + b * a_private a * prr * taxRealizedGains p
          \<longrightarrow> computeHoldingCompanyTaxes p b a dy pr cr prr =
                b * a_public a * dy * taxDividends p
                + b * a_public a * pr * taxRealizedGains p
                + b * a_cash a * cr * taxInterest p
                + b * a_private a * prr * taxRealizedGains p)
       \<and> (b * a_public a * dy * taxDividends p
             + b * a_public a * pr * taxRealizedGains p
             + b * a_cash a * cr * taxInterest p
             + b * a_private a * prr * taxRealizedGains p < 0
          \<longrightarrow> computeHoldingCompanyTaxes p b a dy pr cr prr = 0)"
proof -
  have "computeHoldingCompanyTaxes p b a dy pr cr prr =
           max 0 (b * a_public a * dy * taxDividends p
                  + b * a_public a * pr * taxRealizedGains p
                  + b * a_cash a * cr * taxInterest p
                  + b * a_private a * prr * taxRealizedGains p)"
    using assms by (simp add: computeHoldingCompanyTaxes_def computeCustomTaxes_def Let_def)
  then show ?thesis by (simp add: max_def)
qed

text \<open>
  The sample scenario on a base of 1000 with 2% dividends, 3% realized public gains, 5%
  realized private gains and a cash return of -3%: the four terms are 2.5 + 3.75 - 1.8 + 3.75,
  and the total is their sum 8.2.
\<close>

theorem custom_tax_is_floored_sum_witness:
  "taxJurisdiction exampleParams = Custom
   \<and> computeHoldingCompanyTaxes exampleParams 1000 (assetAlloc exampleParams)
         (2 / 100) (3 / 100) (- 3 / 100) (5 / 100) = 82 / 10"
proof -
  have j: "taxJurisdiction exampleParams = Custom"
    by (simp add: exampleParams_def)
  from custom_tax_is_floored_sum [OF j, of 1000 "assetAlloc exampleParams"
      "2 / 100" "3 / 100" "- 3 / 100" "5 / 100"]
  show ?thesis by (simp add: exampleParams_def)
qed

text \<open>
  Claim C1 as stated fails for a negative cash return: the whole base in cash, a cash return
  of -5% and 30% tax on interest give the four-term sum -1.5, and the entry point returns 0.
\<close>

theorem custom_tax_negative_cash_counterexample:
  "computeHoldingCompanyTaxes exampleParams 100 cashOnly 0 0 (- 5 / 100) 0
     \<noteq> 100 * a_public cashOnly * 0 * taxDividends exampleParams
         + 100 * a_public cashOnly * 0 * taxRealizedGains exampleParams
         + 100 * a_cash cashOnly * (- 5 / 100) * taxInterest exampleParams
         + 100 * a_private cashOnly * 0 * taxRealizedGains exampleParams
   \<and> computeHoldingCompanyTaxes exampleParams 100 cashOnly 0 0 (- 5 / 100) 0 = 0"
  by (simp add: computeHoldingCompanyTaxes_def computeCustomTaxes_def Let_def
      exampleParams_def cashOnly_def)

text \<open>
  Claim C2, as the code has it. With ownership of at least 15% the German dividend tax of an
  entity that is not asset-managing still contains trade tax, charged on the 5% taxable
  portion of the dividend; only the asset-managing entity pays none.
\<close>

theorem german_dividend_trade_tax_on_taxable_portion:
  assumes "15 / 100 \<le> ownershipPct"
  shows "calculateGermanDividendTax d ownershipPct t False
           = d * (5 / 100) * (15 / 100) + d * (5 / 100) * (15 / 100) * (55 / 1000)
             + d * (5 / 100) * t
       \<and> calculateGermanDividendTax d ownershipPct t True
           = d * (5 / 100) * (15 / 100) + d * (5 / 100) * (15 / 100) * (55 / 1000)"
  using assms by (simp add: calculateGermanDividendTax_def Let_def german_constants)

theorem german_dividend_trade_tax_on_taxable_portion_witness:
  "(15 / 100 :: real) \<le> 20 / 100
   \<and> calculateGermanDividendTax 100 (20 / 100) (14 / 100) False = 149125 / 100000
   \<and> calculateGermanDividendTax 100 (20 / 100) (14 / 100) True = 79125 / 100000"
proof -
  have h: "(15 / 100 :: real) \<le> 20 / 100" by simp
  from german_dividend_trade_tax_on_taxable_portion [OF h, of 100 "14 / 100"]
  show ?thesis by simp
qed

text \<open>
  Claim C2 as stated fails: at 15% ownership, a dividend of 100 and a trade tax rate of 14%,
  the entity that is not asset-managing pays 0.7 more than corporate tax plus solidarity
  surcharge (0.75 + 0.04125), which is all the asset-managing entity pays.
\<close>

theorem german_dividend_trade_tax_counterexample:
  "calculateGermanDividendTax 100 (15 / 100) (14 / 100) False
     \<noteq> 100 * (5 / 100) * (15 / 100) + 100 * (5 / 100) * (15 / 100) * (55 / 1000)
   \<and> calculateGermanDividendTax 100 (15 / 100) (14 / 100) False
       - calculateGermanDividendTax 100 (15 / 100) (14 / 100) True = 7 / 10"
  by (simp add: calculateGermanDividendTax_def Let_def german_constants)

text \<open>
  Claim C3. The full-portfolio and the liquid-only entry point return a value \<open>\<ge> 0\<close>, in
  every jurisdiction and on every input.
\<close>

theorem tax_outputs_nonnegative:
  "0 \<le> computeHoldingCompanyTaxes p b a dy pr cr prr
   \<and> 0 \<le> computeLiquidHoldingCompanyTaxes p b a dy pr cr"
  by (simp add: computeHoldingCompanyTaxes_def computeCustomTaxes_def
      computeLiquidHoldingCompanyTaxes_def computeLiquidCustomTaxes_def Let_def)

section \<open>The year loop: where the row sequence stops\<close>

lemma findIndex_ge: "- 1 \<le> findIndex P xs"
  by (induction xs) (auto simp: Let_def)

lemma findIndex_none: "findIndex P xs = - 1 \<longleftrightarrow> (\<forall>x\<in>set xs. \<not> P x)"
proof (induction xs)
  case Nil
  then show ?case by simp
next
  case (Cons x xs)
  have "findIndex P xs + 1 \<noteq> - 1" using findIndex_ge [of P xs] by linarith
  with Cons show ?case by (simp add: Let_def)
qed

lemma findIndex_first:
  "findIndex P xs \<noteq> - 1 \<Longrightarrow>
     0 \<le> findIndex P xs \<and> nat (findIndex P xs) < length xs \<and> P (xs ! nat (findIndex P xs))
     \<and> (\<forall>j < nat (findIndex P xs). \<not> P (xs ! j))"
proof (induction xs)
  case Nil
  then show ?case by simp
next
  case (Cons x xs)
  show ?case
  proof (cases "P x")
    case True
    then show ?thesis by simp
  next
    case False
    with Cons.prems have ne: "findIndex P xs \<noteq> - 1" by (auto simp: Let_def split: if_splits)
    from Cons.IH [OF ne] have ih: "0 \<le> findIndex P xs" "nat (findIndex P xs) < length xs"
      "P (xs ! nat (findIndex P xs))" "\<forall>j < nat (findIndex P xs). \<not> P (xs ! j)" by auto
    have eq: "findIndex P (x # xs) = findIndex P xs + 1" using False ne by (simp add: Let_def)
    have n: "nat (findIndex P xs + 1) = Suc (nat (findIndex P xs))" using ih(1) by simp
    show ?thesis unfolding eq n using ih False
      by (auto simp: nth_Cons split: nat.splits)
  qed
qed

declare yearLoop.simps [simp del]

lemma yearLoop_stop:
  "yearIndex \<le> years \<Longrightarrow>
   wealth (simulateYear params allocation pc pd yearIndex w lw l) \<le> 0 \<Longrightarrow>
   yearLoop params years allocation pc pd yearIndex w lw l
     = [simulateYear params allocation pc pd yearIndex w lw l]"
  by (subst yearLoop.simps) (simp add: Let_def)

lemma yearLoop_go:
  "yearIndex \<le> years \<Longrightarrow>
   \<not> wealth (simulateYear params allocation pc pd yearIndex w lw l) \<le> 0 \<Longrightarrow>
   yearLoop params years allocation pc pd yearIndex w lw l =
     simulateYear params allocation pc pd yearIndex w lw l
       # yearLoop params years allocation pc pd (Suc yearIndex)
           (wealth (simulateYear params allocation pc pd yearIndex w lw l))
           (liquidWealth (simulateYear params allocation pc pd yearIndex w lw l))
           (expense (simulateYear params allocation pc pd yearIndex w lw l))"
  by (subst yearLoop.simps) (simp add: Let_def)

lemma yearLoop_end:
  "\<not> yearIndex \<le> years \<Longrightarrow> yearLoop params years allocation pc pd yearIndex w lw l = []"
  by (subst yearLoop.simps) simp

lemma yearLoop_shape:
  "yearIndex \<le> years \<Longrightarrow>
   (let rs = yearLoop params years allocation pc pd yearIndex w lw l in
      rs \<noteq> [] \<and> length rs \<le> Suc years - yearIndex
      \<and> (\<forall>i. Suc i < length rs \<longrightarrow> 0 < wealth (rs ! i))
      \<and> (0 < wealth (last rs) \<longrightarrow> length rs = Suc years - yearIndex))"
proof (induction params years allocation pc pd yearIndex w lw l rule: yearLoop.induct)
  case (1 params years allocation pc pd yearIndex w lw l)
  define row where "row = simulateYear params allocation pc pd yearIndex w lw l"
  show ?case
  proof (cases "wealth row \<le> 0")
    case True
    then show ?thesis
      using "1.prems" yearLoop_stop [of yearIndex years params allocation pc pd w lw l]
      by (simp add: row_def Let_def)
  next
    case False
    define rest where "rest = yearLoop params years allocation pc pd (Suc yearIndex)
                                (wealth row) (liquidWealth row) (expense row)"
    have unf: "yearLoop params years allocation pc pd yearIndex w lw l = row # rest"
      using False "1.prems" yearLoop_go [of yearIndex years params allocation pc pd w lw l]
      by (simp add: row_def rest_def)
    show ?thesis
    proof (cases "Suc yearIndex \<le> years")
      case True
      from "1.IH" [OF "1.prems" row_def False True]
      have ih: "rest \<noteq> []" "length rest \<le> Suc years - Suc yearIndex"
        "\<forall>i. Suc i < length rest \<longrightarrow> 0 < wealth (rest ! i)"
        "0 < wealth (last rest) \<longrightarrow> length rest = Suc years - Suc yearIndex"
        by (simp_all add: rest_def Let_def)
      have a: "\<forall>i. Suc i < length (row # rest) \<longrightarrow> 0 < wealth ((row # rest) ! i)"
        using ih(3) False by (auto simp: nth_Cons split: nat.splits)
      show ?thesis unfolding unf Let_def using ih a True by auto
    next
      case F2: False
      then have "rest = []" by (simp add: rest_def yearLoop_end)
      then show ?thesis unfolding unf Let_def using False F2 "1.prems" by auto
    qed
  qed
qed

lemma yearLoop_rows:
  "r \<in> set (yearLoop params years allocation pc pd yearIndex w lw l) \<Longrightarrow>
     \<exists>i w' lw' l'. r = simulateYear params allocation pc pd i w' lw' l'"
proof (induction params years allocation pc pd yearIndex w lw l rule: yearLoop.induct)
  case (1 params years allocation pc pd yearIndex w lw l)
  show ?case
  proof (cases "yearIndex \<le> years")
    case True
    define row where "row = simulateYear params allocation pc pd yearIndex w lw l"
    show ?thesis
    proof (cases "wealth row \<le> 0")
      case T2: True
      with True "1.prems" have "r = row" by (simp add: row_def yearLoop_stop)
      then show ?thesis unfolding row_def by blast
    next
      case False
      with True "1.prems"
      have "r = row \<or> r \<in> set (yearLoop params years allocation pc pd (Suc yearIndex)
                                  (wealth row) (liquidWealth row) (expense row))"
        by (simp add: row_def yearLoop_go)
      then show ?thesis using "1.IH" [OF True row_def False] unfolding row_def by blast
    qed
  next
    case False
    with "1.prems" show ?thesis by (simp add: yearLoop_end)
  qed
qed

lemma rows_simulateDeterministic:
  "rows (simulateDeterministic p) =
     yearLoop p (horizonYears p) (normalizeAllocation (assetAlloc p))
       (calls (generatePrivateSchedules (privCommit p) (horizonYears p)))
       (distributions (generatePrivateSchedules (privCommit p) (horizonYears p))) 0
       (startWealth p) (startWealth p * clamp (liquidShare p) 0 1) (annualExpenseNow p)"
  by (simp add: simulateDeterministic_def Let_def)

lemma brokeYear_simulateDeterministic:
  "brokeYear (simulateDeterministic p)
     = findIndex (\<lambda>row. wealth row \<le> 0) (rows (simulateDeterministic p))"
  by (simp add: simulateDeterministic_def Let_def)

text \<open>
  Claim C4. The deterministic simulator emits at least one row; every row except possibly
  the last has wealth \<open>> 0\<close>; if some row has wealth \<open>\<le> 0\<close> then it is the last row and
  \<open>brokeYear\<close> is its index (with all earlier rows positive it is the first such row);
  if no row has wealth \<open>\<le> 0\<close> then \<open>brokeYear = -1\<close> and there are exactly \<open>years + 1\<close> rows.
\<close>

theorem rows_stop_at_first_nonpositive_wealth:
  "rows (simulateDeterministic p) \<noteq> []
   \<and> (\<forall>i. Suc i < length (rows (simulateDeterministic p))
          \<longrightarrow> 0 < wealth (rows (simulateDeterministic p) ! i))
   \<and> ((\<exists>r \<in> set (rows (simulateDeterministic p)). wealth r \<le> 0)
        \<longrightarrow> brokeYear (simulateDeterministic p) = int (length (rows (simulateDeterministic p))) - 1
            \<and> wealth (last (rows (simulateDeterministic p))) \<le> 0)
   \<and> ((\<forall>r \<in> set (rows (simulateDeterministic p)). 0 < wealth r)
        \<longrightarrow> brokeYear (simulateDeterministic p) = - 1
            \<and> length (rows (simulateDeterministic p)) = horizonYears p + 1)"
proof -
  define rs where "rs = rows (simulateDeterministic p)"
  define b where "b = brokeYear (simulateDeterministic p)"
  have b: "b = findIndex (\<lambda>row. wealth row \<le> 0) rs"
    by (simp add: b_def rs_def brokeYear_simulateDeterministic)
  have shape: "rs \<noteq> []" "\<forall>i. Suc i < length rs \<longrightarrow> 0 < wealth (rs ! i)"
    "0 < wealth (last rs) \<longrightarrow> length rs = Suc (horizonYears p)"
    using yearLoop_shape [of 0 "horizonYears p" p "normalizeAllocation (assetAlloc p)"
        "calls (generatePrivateSchedules (privCommit p) (horizonYears p))"
        "distributions (generatePrivateSchedules (privCommit p) (horizonYears p))"
        "startWealth p" "startWealth p * clamp (liquidShare p) 0 1" "annualExpenseNow p"]
    by (simp_all add: rs_def rows_simulateDeterministic Let_def)
  have ruin: "b = int (length rs) - 1 \<and> wealth (last rs) \<le> 0" if ex: "\<exists>r \<in> set rs. wealth r \<le> 0"
  proof -
    from ex have ne: "findIndex (\<lambda>row. wealth row \<le> 0) rs \<noteq> - 1"
      by (simp add: findIndex_none)
    from findIndex_first [OF ne] b
    have f: "0 \<le> b" "nat b < length rs" "wealth (rs ! nat b) \<le> 0" by auto
    have "\<not> Suc (nat b) < length rs" using shape(2) f(3) by force
    with f(2) have last: "Suc (nat b) = length rs" by linarith
    then have "rs ! nat b = last rs" using shape(1)
      by (metis diff_Suc_1 last_conv_nth)
    with f last show ?thesis by (simp add: nat_eq_iff)
  qed
  have fine: "b = - 1 \<and> length rs = horizonYears p + 1" if all: "\<forall>r \<in> set rs. 0 < wealth r"
  proof -
    from all have "\<forall>r \<in> set rs. \<not> wealth r \<le> 0" by (simp add: not_le)
    then have "b = - 1" unfolding b by (simp only: findIndex_none)
    moreover have "0 < wealth (last rs)" using all shape(1) by simp
    ultimately show ?thesis using shape(3) by simp
  qed
  show ?thesis
    using shape(1,2) ruin fine unfolding rs_def b_def by blast
qed

text \<open>
  Both cases on concrete scenarios: the sample scenario never goes broke over its one-year
  horizon (two rows, \<open>brokeYear = -1\<close>); spending 2000 a year out of 1000 is broke in row 0.
\<close>

theorem rows_stop_at_first_nonpositive_wealth_witness:
  "map wealth (rows (simulateDeterministic exampleParams)) = [4213 / 4, 17749369 / 16000]
   \<and> brokeYear (simulateDeterministic exampleParams) = - 1
   \<and> length (rows (simulateDeterministic exampleParams)) = horizonYears exampleParams + 1
   \<and> map wealth (rows (simulateDeterministic overspending)) = [- 1000]
   \<and> brokeYear (simulateDeterministic overspending) = 0"
proof -
  have a: "map wealth (rows (simulateDeterministic exampleParams)) = [4213 / 4, 17749369 / 16000]"
    by code_simp
  have c: "map wealth (rows (simulateDeterministic overspending)) = [- 1000]"
    by code_simp
  have "\<forall>x \<in> set (map wealth (rows (simulateDeterministic exampleParams))). 0 < x"
    unfolding a by simp
  then have pos: "\<forall>r \<in> set (rows (simulateDeterministic exampleParams)). 0 < wealth r"
    by simp
  have "\<exists>x \<in> set (map wealth (rows (simulateDeterministic overspending))). x \<le> 0"
    unfolding c by simp
  then have neg: "\<exists>r \<in> set (rows (simulateDeterministic overspending)). wealth r \<le> 0"
    by simp
  have l: "length (rows (simulateDeterministic overspending)) = 1"
    using arg_cong [OF c, of length] by simp
  from rows_stop_at_first_nonpositive_wealth [of exampleParams]
    rows_stop_at_first_nonpositive_wealth [of overspending] a c pos neg l
  show ?thesis by simp
qed

section \<open>The liquid ledger\<close>

lemma simulateYear_liquid_nonneg:
  "0 \<le> liquidWealth (simulateYear params allocation pc pd yearIndex w lw l)
   \<and> 0 \<le> liquidityYears (simulateYear params allocation pc pd yearIndex w lw l)"
  by (simp add: simulateYear_def Let_def)

text \<open>
  Claim C10. In every emitted row \<open>liquidWealth\<close> is \<open>\<ge> 0\<close>, whatever the total wealth, and
  so is \<open>liquidityYears\<close>.
\<close>

theorem liquid_wealth_never_negative:
  "\<forall>r \<in> set (rows (simulateDeterministic p)). 0 \<le> liquidWealth r \<and> 0 \<le> liquidityYears r"
  unfolding rows_simulateDeterministic
  using yearLoop_rows simulateYear_liquid_nonneg by blast

text \<open>The overspending scenario: its row has wealth -1000 and a liquid ledger of 0.\<close>

theorem liquid_wealth_never_negative_witness:
  "rows (simulateDeterministic overspending) \<noteq> []
   \<and> wealth (hd (rows (simulateDeterministic overspending))) = - 1000
   \<and> 0 \<le> liquidWealth (hd (rows (simulateDeterministic overspending)))
   \<and> 0 \<le> liquidityYears (hd (rows (simulateDeterministic overspending)))"
proof -
  have ne: "rows (simulateDeterministic overspending) \<noteq> []"
    by code_simp
  have w: "wealth (hd (rows (simulateDeterministic overspending))) = - 1000"
    by code_simp
  from ne have "hd (rows (simulateDeterministic overspending))
                  \<in> set (rows (simulateDeterministic overspending))"
    by simp
  with liquid_wealth_never_negative [of overspending] ne w show ?thesis
    by blast
qed

section \<open>The private commitment schedule\<close>

declare fillFrom.simps [simp del]

lemma fillFrom_length:
  "final \<le> int (length arr) \<Longrightarrow> length (fillFrom arr y final v) = length arr"
proof (induction arr y final v rule: fillFrom.induct)
  case (1 arr y final v)
  show ?case
  proof (cases "int y < final")
    case True
    with "1.prems" have iny: "y < length arr" by linarith
    then have len: "length (array_set arr y v) = length arr" by (simp add: array_set_def)
    from "1.IH" [OF True] "1.prems" len
    have "length (fillFrom (array_set arr y v) (Suc y) final v) = length arr" by simp
    with True show ?thesis by (subst fillFrom.simps) simp
  next
    case False
    then show ?thesis by (subst fillFrom.simps) simp
  qed
qed

lemma fillFrom_nth:
  "final \<le> int (length arr) \<Longrightarrow> i < length arr \<Longrightarrow>
     fillFrom arr y final v ! i = (if y \<le> i \<and> int i < final then v else arr ! i)"
proof (induction arr y final v rule: fillFrom.induct)
  case (1 arr y final v)
  show ?case
  proof (cases "int y < final")
    case True
    with "1.prems" have iny: "y < length arr" by linarith
    then have upd: "array_set arr y v = arr[y := v]" by (simp add: array_set_def)
    from "1.IH" [OF True] "1.prems" upd
    have "fillFrom (arr[y := v]) (Suc y) final v ! i
            = (if Suc y \<le> i \<and> int i < final then v else arr[y := v] ! i)"
      by simp
    moreover have "fillFrom arr y final v = fillFrom (arr[y := v]) (Suc y) final v"
      using True upd by (subst fillFrom.simps) simp
    ultimately show ?thesis using True iny "1.prems"
      by (cases "i = y") (auto simp: nth_list_update)
  next
    case False
    then have "fillFrom arr y final v = arr" by (subst fillFrom.simps) simp
    with False show ?thesis by auto
  qed
qed

lemma schedule_lengths:
  "length (calls (generatePrivateSchedules pc years)) = years + 1
   \<and> length (distributions (generatePrivateSchedules pc years)) = years + 1"
  by (simp add: generatePrivateSchedules_def Let_def fillFrom_length)

lemma schedule_disabled:
  "\<not> enabled pc \<or> totalCommitment pc \<le> 0 \<Longrightarrow>
     calls (generatePrivateSchedules pc years) = replicate (years + 1) 0
     \<and> distributions (generatePrivateSchedules pc years) = replicate (years + 1) 0"
  by (auto simp add: generatePrivateSchedules_def Let_def)

lemma real_max_cast: "real_of_int (max (int n) 1) = real (max n (Suc 0))"
  by (simp add: max_def)

lemma schedule_calls_nth:
  assumes "enabled pc" "0 < totalCommitment pc" "i < years + 1"
  shows "calls (generatePrivateSchedules pc years) ! i = claimedCall pc years i"
proof -
  have e: "min (int (callYears pc)) (int years + 1) = int (min (callYears pc) (years + 1))"
    by simp
  have m: "max (int (min (callYears pc) (years + 1))) 1 = int (max (min (callYears pc) (years + 1)) 1)"
    by simp
  have "calls (generatePrivateSchedules pc years)
          = fillFrom (replicate (years + 1) 0) 0 (int (min (callYears pc) (years + 1)))
              (totalCommitment pc / real (max (min (callYears pc) (years + 1)) 1))"
    using assms(1,2)
    by (simp add: generatePrivateSchedules_def Let_def e real_max_cast
        del: of_nat_min of_nat_max replicate.simps)
  then show ?thesis using assms(3)
    by (simp add: fillFrom_nth claimedCall_def del: replicate.simps)
qed

lemma schedule_distributions_nth:
  assumes "enabled pc" "0 < totalCommitment pc" "i < years + 1"
  shows "distributions (generatePrivateSchedules pc years) ! i = claimedDistribution pc years i"
proof -
  define N where "N = max 1 (min (int (distYears pc)) (int years + 1 - int (distLagYears pc)))"
  have Npos: "1 \<le> N" by (simp add: N_def)
  have span: "claimedSpan pc years = nat N" by (simp add: claimedSpan_def N_def)
  have e: "min (int (callYears pc)) (int years + 1) = int (min (callYears pc) (years + 1))"
    by simp
  have m: "max (int (min (callYears pc) (years + 1))) 1 = int (max (min (callYears pc) (years + 1)) 1)"
    by simp
  define X where "X = totalCommitment pc / real (max (min (callYears pc) (years + 1)) 1)
              * real (min (callYears pc) (years + 1)) * distMultiple pc"
  have d: "distributions (generatePrivateSchedules pc years)
          = fillFrom (replicate (years + 1) 0) (distLagYears pc)
              (min (int (distLagYears pc) + N) (int years + 1)) (X / real_of_int N)"
    using assms(1,2)
    by (simp add: generatePrivateSchedules_def Let_def e real_max_cast N_def X_def
        del: of_nat_min of_nat_max replicate.simps)
  have rn: "real_of_int N = real (nat N)" using Npos by simp
  have w: "(distLagYears pc \<le> i \<and> int i < min (int (distLagYears pc) + N) (int years + 1))
            \<longleftrightarrow> (distLagYears pc \<le> i \<and> i < distLagYears pc + nat N)"
    using assms(3) Npos by auto
  have c: "claimedDistribution pc years i
             = (if distLagYears pc \<le> i \<and> i < distLagYears pc + nat N then X / real (nat N) else 0)"
    unfolding claimedDistribution_def span X_def by (rule refl)
  show ?thesis
    unfolding d c using assms(3) w
    by (simp add: fillFrom_nth rn del: of_nat_min of_nat_max replicate.simps)
qed

lemma span_fits:
  "distLagYears pc \<le> years \<Longrightarrow> distLagYears pc + claimedSpan pc years \<le> years + 1"
  by (auto simp: claimedSpan_def)

text \<open>
  Claim C5. Both arrays have length \<open>years + 1\<close>. A disabled or non-positive commitment gives
  all-zero arrays. Otherwise slot \<open>i\<close> of \<open>calls\<close> is \<open>totalCommitment / max(effectiveCallYears, 1)\<close>
  for \<open>i < effectiveCallYears = min(callYears, years + 1)\<close> and 0 after, and slot \<open>i\<close> of
  \<open>distributions\<close> is the called capital times \<open>distMultiple\<close> divided by
  \<open>max(1, min(distYears, years + 1 - distLagYears))\<close> inside the window of that many years
  starting at \<open>distLagYears\<close>, and 0 outside; the window lies inside the array whenever
  \<open>distLagYears \<le> years\<close>. For a commitment of 2,000,000 called over 4 years on a 10-year
  horizon the calls are four times 500,000 and then 0, and all non-zero distributions are
  equal, whatever the lag, the distribution years and the multiple.
\<close>

theorem private_schedule_spec:
  "length (calls (generatePrivateSchedules pc years)) = years + 1
   \<and> length (distributions (generatePrivateSchedules pc years)) = years + 1
   \<and> (\<not> enabled pc \<or> totalCommitment pc \<le> 0 \<longrightarrow>
        calls (generatePrivateSchedules pc years) = replicate (years + 1) 0
        \<and> distributions (generatePrivateSchedules pc years) = replicate (years + 1) 0)
   \<and> (enabled pc \<and> 0 < totalCommitment pc \<longrightarrow>
        (\<forall>i < years + 1.
           calls (generatePrivateSchedules pc years) ! i = claimedCall pc years i
           \<and> distributions (generatePrivateSchedules pc years) ! i
               = claimedDistribution pc years i))
   \<and> (distLagYears pc \<le> years \<longrightarrow> distLagYears pc + claimedSpan pc years \<le> years + 1)
   \<and> calls (generatePrivateSchedules (testCommitment lag dy m) 10)
       = [500000, 500000, 500000, 500000, 0, 0, 0, 0, 0, 0, 0]
   \<and> (\<forall>i < 11. \<forall>j < 11.
         distributions (generatePrivateSchedules (testCommitment lag dy m) 10) ! i \<noteq> 0
         \<and> distributions (generatePrivateSchedules (testCommitment lag dy m) 10) ! j \<noteq> 0
         \<longrightarrow> distributions (generatePrivateSchedules (testCommitment lag dy m) 10) ! i
             = distributions (generatePrivateSchedules (testCommitment lag dy m) 10) ! j)"
proof -
  let ?tc = "testCommitment lag dy m"
  have tc: "enabled ?tc" "0 < totalCommitment ?tc"
    by (simp_all add: testCommitment_def)
  have "calls (generatePrivateSchedules ?tc 10) = map (claimedCall ?tc 10) [0 ..< 10 + 1]"
  proof (rule nth_equalityI)
    show "length (calls (generatePrivateSchedules ?tc 10))
            = length (map (claimedCall ?tc 10) [0 ..< 10 + 1])"
      using schedule_lengths [of ?tc 10] by simp
  next
    fix i assume "i < length (calls (generatePrivateSchedules ?tc 10))"
    then have i: "i < 10 + 1" using schedule_lengths [of ?tc 10] by simp
    from schedule_calls_nth [OF tc i] i
    show "calls (generatePrivateSchedules ?tc 10) ! i = map (claimedCall ?tc 10) [0 ..< 10 + 1] ! i"
      by (simp del: upt_Suc)
  qed
  also have "\<dots> = [500000, 500000, 500000, 500000, 0, 0, 0, 0, 0, 0, 0]"
    by (simp add: claimedCall_def testCommitment_def upt_conv_Cons)
  finally have particular_calls:
    "calls (generatePrivateSchedules ?tc 10) = [500000, 500000, 500000, 500000, 0, 0, 0, 0, 0, 0, 0]" .
  have particular_dists:
    "distributions (generatePrivateSchedules ?tc 10) ! i
       = distributions (generatePrivateSchedules ?tc 10) ! j"
    if "i < 11" "j < 11" "distributions (generatePrivateSchedules ?tc 10) ! i \<noteq> 0"
      "distributions (generatePrivateSchedules ?tc 10) ! j \<noteq> 0" for i j
  proof -
    from that(1,2) have ij: "i < 10 + 1" "j < 10 + 1" by simp_all
    from schedule_distributions_nth [OF tc ij(1)] schedule_distributions_nth [OF tc ij(2)] that(3,4)
    show ?thesis by (simp add: claimedDistribution_def split: if_splits)
  qed
  show ?thesis
    using schedule_lengths [of pc years] schedule_disabled [of pc years]
      schedule_calls_nth [of pc _ years] schedule_distributions_nth [of pc _ years]
      span_fits [of pc years] particular_calls particular_dists
    by blast
qed

text \<open>The schedule of the unit test: lag 2, four distribution years, multiple 2.\<close>

theorem private_schedule_spec_witness:
  "enabled (testCommitment 2 4 2) \<and> 0 < totalCommitment (testCommitment 2 4 2)
   \<and> calls (generatePrivateSchedules (testCommitment 2 4 2) 10) ! 3 = 500000
   \<and> calls (generatePrivateSchedules (testCommitment 2 4 2) 10) ! 4 = 0
   \<and> distributions (generatePrivateSchedules (testCommitment 2 4 2) 10) ! 1 = 0
   \<and> distributions (generatePrivateSchedules (testCommitment 2 4 2) 10) ! 2 = 1000000
   \<and> distributions (generatePrivateSchedules (testCommitment 2 4 2) 10) ! 5 = 1000000
   \<and> distributions (generatePrivateSchedules (testCommitment 2 4 2) 10) ! 6 = 0
   \<and> distLagYears (testCommitment 2 4 2) + claimedSpan (testCommitment 2 4 2) 10 \<le> 10 + 1"
proof -
  have tc: "enabled (testCommitment 2 4 2)" "0 < totalCommitment (testCommitment 2 4 2)"
    "distLagYears (testCommitment 2 4 2) \<le> 10"
    by (simp_all add: testCommitment_def)
  have c: "claimedCall (testCommitment 2 4 2) 10 3 = 500000"
    "claimedCall (testCommitment 2 4 2) 10 4 = 0"
    by (simp_all add: claimedCall_def testCommitment_def)
  have d: "claimedDistribution (testCommitment 2 4 2) 10 1 = 0"
    "claimedDistribution (testCommitment 2 4 2) 10 2 = 1000000"
    "claimedDistribution (testCommitment 2 4 2) 10 5 = 1000000"
    "claimedDistribution (testCommitment 2 4 2) 10 6 = 0"
    by (simp_all add: claimedDistribution_def claimedSpan_def testCommitment_def)
  from private_schedule_spec [of "testCommitment 2 4 2" 10] tc c d
  show ?thesis by simp
qed

section \<open>The allocation normalizer in binary64\<close>

declare scaleDown.simps [simp del] scaleUp.simps [simp del]

lemma two_powi_Suc: "(2::real) powi (e + 1) = 2 * 2 powi e"
  by (simp add: power_int_add)

lemma two_powi_pred: "(2::real) powi (e - 1) = 2 powi e / 2"
  by (simp add: power_int_diff)

lemma scaleDown_spec:
  "0 < x \<Longrightarrow> scaleDown x e = (y, e') \<Longrightarrow>
     y * 2 powi e' = x * 2 powi e \<and> 0 < y \<and> y < 2 \<and> e \<le> e' \<and> (1 \<le> x \<longrightarrow> 1 \<le> y)"
proof (induction x e rule: scaleDown.induct)
  case (1 x e)
  show ?case
  proof (cases "2 \<le> x")
    case True
    with "1.prems"(2) have "scaleDown (x / 2) (e + 1) = (y, e')"
      by (subst (asm) scaleDown.simps) simp
    from "1.IH" [OF True _ this] "1.prems"(1) True
    have "y * 2 powi e' = x / 2 * 2 powi (e + 1)" "0 < y" "y < 2" "e + 1 \<le> e'" "1 \<le> y"
      by simp_all
    then show ?thesis by (simp add: two_powi_Suc)
  next
    case False
    with "1.prems"(2) have "y = x" "e' = e"
      by (subst (asm) scaleDown.simps, simp)+
    with False "1.prems"(1) show ?thesis by simp
  qed
qed

lemma scaleUp_spec:
  "0 < x \<Longrightarrow> x < 2 \<Longrightarrow> - 1022 \<le> e \<Longrightarrow> scaleUp x e = (m, e') \<Longrightarrow>
     m * 2 powi e' = x * 2 powi e \<and> 0 < m \<and> m < 2 \<and> - 1022 \<le> e' \<and> (1 \<le> m \<or> e' = - 1022)"
proof (induction x e rule: scaleUp.induct)
  case (1 x e)
  show ?case
  proof (cases "x < 1 \<and> - 1022 < e")
    case True
    with "1.prems"(4) have "scaleUp (x * 2) (e - 1) = (m, e')"
      by (subst (asm) scaleUp.simps) simp
    from "1.IH" [OF True _ _ _ this] "1.prems"(1) True
    have "m * 2 powi e' = x * 2 * 2 powi (e - 1)" "0 < m" "m < 2" "- 1022 \<le> e'"
      "1 \<le> m \<or> e' = - 1022"
      by simp_all
    then show ?thesis by (simp add: two_powi_pred)
  next
    case False
    with "1.prems"(4) have "m = x" "e' = e"
      by (subst (asm) scaleUp.simps, simp)+
    with False "1.prems"(1,2,3) show ?thesis by auto
  qed
qed

text \<open>Every positive real is \<open>m * 2^e\<close> with \<open>1 \<le> m < 2\<close>, or \<open>m < 1\<close> at the lowest exponent.\<close>

lemma roundDouble_normalised:
  assumes "0 < x"
  obtains m e where "x = m * 2 powi e" "0 < m" "m < 2" "- 1022 \<le> e" "1 \<le> m \<or> e = - 1022"
    "roundDouble x = of_int (roundHalfEven (m * 2 ^ 52)) * 2 powi (e - 52)"
proof -
  obtain y e0 where d: "scaleDown x 0 = (y, e0)" by (cases "scaleDown x 0")
  obtain m e where u: "scaleUp y e0 = (m, e)" by (cases "scaleUp y e0")
  from scaleDown_spec [OF assms d] have y: "y * 2 powi e0 = x" "0 < y" "y < 2" "0 \<le> e0"
    by simp_all
  from scaleUp_spec [OF y(2) y(3) _ u] y(4)
  have m: "m * 2 powi e = y * 2 powi e0" "0 < m" "m < 2" "- 1022 \<le> e" "1 \<le> m \<or> e = - 1022"
    by simp_all
  have r: "roundDouble x = of_int (roundHalfEven (m * 2 ^ 52)) * 2 powi (e - 52)"
    using assms by (simp add: roundDouble_def d u)
  have x: "x = m * 2 powi e" using m(1) y(1) by simp
  show thesis by (rule that [OF x m(2) m(3) m(4) m(5) r])
qed

lemma roundHalfEven_error: "\<bar>of_int (roundHalfEven y) - y\<bar> \<le> 1 / 2"
  unfolding roundHalfEven_def Let_def by (simp; linarith)

lemma roundHalfEven_int: "roundHalfEven (of_int k) = k"
  by (simp add: roundHalfEven_def)

lemma roundHalfEven_ge: "of_int k \<le> y \<Longrightarrow> k \<le> roundHalfEven y"
  unfolding roundHalfEven_def Let_def by (simp add: le_floor_iff; linarith)

lemma roundDouble_error:
  assumes "0 \<le> x"
  shows "\<bar>roundDouble x - x\<bar> \<le> unitRoundoff * max x minNormal"
proof (cases "x = 0")
  case True
  then show ?thesis by (simp add: roundDouble_def unitRoundoff_def minNormal_def)
next
  case False
  with assms have "0 < x" by simp
  then obtain m e where n: "x = m * 2 powi e" "0 < m" "m < 2" "- 1022 \<le> e"
    "1 \<le> m \<or> e = - 1022"
    "roundDouble x = of_int (roundHalfEven (m * 2 ^ 52)) * 2 powi (e - 52)"
    by (rule roundDouble_normalised)
  have p: "(2::real) powi e = 2 ^ 52 * 2 powi (e - 52)"
    by (simp add: power_int_diff)
  have pos: "0 < (2::real) powi (e - 52)" by simp
  have "x = m * 2 ^ 52 * 2 powi (e - 52)"
    using n(1) p by simp
  with n(6)
  have "roundDouble x - x = (of_int (roundHalfEven (m * 2 ^ 52)) - m * 2 ^ 52) * 2 powi (e - 52)"
    by (simp only: left_diff_distrib)
  then have "\<bar>roundDouble x - x\<bar> = \<bar>of_int (roundHalfEven (m * 2 ^ 52)) - m * 2 ^ 52\<bar> * 2 powi (e - 52)"
    using pos by (simp add: abs_mult)
  also have "\<dots> \<le> 1 / 2 * 2 powi (e - 52)"
    using roundHalfEven_error [of "m * 2 ^ 52"] pos by (intro mult_right_mono) simp_all
  also have "\<dots> = unitRoundoff * 2 powi e"
    unfolding p unitRoundoff_def by simp
  also have "\<dots> \<le> unitRoundoff * max x minNormal"
  proof -
    have "2 powi e \<le> max x minNormal"
    proof (cases "1 \<le> m")
      case True
      then have "1 * 2 powi e \<le> m * 2 powi e" by (intro mult_right_mono) simp_all
      then have "2 powi e \<le> x" unfolding n(1) by simp
      then show ?thesis by (simp add: max_def)
    next
      case False
      with n(5) have "e = - 1022" by simp
      then show ?thesis by (simp add: minNormal_def)
    qed
    then show ?thesis by (intro mult_left_mono) (simp_all add: unitRoundoff_def)
  qed
  finally show ?thesis .
qed

lemma roundDouble_nonneg: "0 \<le> x \<Longrightarrow> 0 \<le> roundDouble x"
proof (cases "x = 0")
  case True
  then show ?thesis by (simp add: roundDouble_def)
next
  case False
  assume "0 \<le> x"
  with False have "0 < x" by simp
  then obtain m e where n: "0 < m"
    "roundDouble x = of_int (roundHalfEven (m * 2 ^ 52)) * 2 powi (e - 52)"
    by (rule roundDouble_normalised)
  have "(0::int) \<le> roundHalfEven (m * 2 ^ 52)"
    using n(1) by (intro roundHalfEven_ge) simp
  then show ?thesis unfolding n(2) by simp
qed

lemma two_powi_add: "(2::real) powi (a + b) = 2 powi a * 2 powi b"
  by (rule power_int_add) simp

lemma minNormal_pos: "0 < minNormal"
  unfolding minNormal_def by (rule zero_less_power_int) simp

lemma quantum_pos: "0 < quantum"
  unfolding quantum_def by (rule zero_less_power_int) simp

lemma minNormal_le_powi: "- 1022 \<le> e \<Longrightarrow> minNormal \<le> 2 powi e"
  unfolding minNormal_def by (rule power_int_increasing) simp_all

lemma minNormal_quantum: "minNormal = 2 ^ 52 * quantum"
proof -
  have "(2::real) powi (int 52 + (- 1074)) = 2 powi (int 52) * 2 powi (- 1074)"
    by (rule two_powi_add)
  moreover have "int 52 + (- 1074) = - 1022" by simp
  ultimately have "(2::real) powi (- 1022) = 2 powi (int 52) * 2 powi (- 1074)"
    by (simp only:)
  then show ?thesis unfolding minNormal_def quantum_def by (simp only: power_int_of_nat)
qed

lemma powi_quantum: "- 1022 \<le> e \<Longrightarrow> (2::real) powi (e - 52) = 2 ^ nat (e + 1022) * quantum"
proof -
  assume "- 1022 \<le> e"
  then have "e - 52 = int (nat (e + 1022)) + (- 1074)" by simp
  then have "(2::real) powi (e - 52) = 2 powi (int (nat (e + 1022)) + (- 1074))"
    by (simp only:)
  also have "\<dots> = 2 powi (int (nat (e + 1022))) * 2 powi (- 1074)"
    by (rule two_powi_add)
  finally show ?thesis unfolding quantum_def by (simp only: power_int_of_nat)
qed

lemma powi_52: "(2::real) powi e = 2 ^ 52 * 2 powi (e - 52)"
proof -
  have "(2::real) powi (int 52 + (e - 52)) = 2 powi (int 52) * 2 powi (e - 52)"
    by (rule two_powi_add)
  moreover have "int 52 + (e - 52) = e" by simp
  ultimately show ?thesis by (simp only: power_int_of_nat)
qed

lemma onGrid_add: "onGrid x \<Longrightarrow> onGrid y \<Longrightarrow> onGrid (x + y)"
proof -
  assume "onGrid x" "onGrid y"
  then obtain k l :: int where "x = of_int k * quantum" "y = of_int l * quantum"
    unfolding onGrid_def by blast
  then have "x + y = of_int (k + l) * quantum" by (simp add: algebra_simps)
  then show ?thesis unfolding onGrid_def by blast
qed

lemma roundDouble_onGrid:
  assumes "0 \<le> x"
  shows "onGrid (roundDouble x)"
proof (cases "x = 0")
  case True
  have "(0::real) = of_int 0 * quantum" by simp
  with True show ?thesis unfolding onGrid_def roundDouble_def by auto
next
  case False
  with assms have "0 < x" by simp
  then obtain m e where n: "- 1022 \<le> e"
    "roundDouble x = of_int (roundHalfEven (m * 2 ^ 52)) * 2 powi (e - 52)"
    by (rule roundDouble_normalised)
  have "roundDouble x
          = of_int (roundHalfEven (m * 2 ^ 52) * 2 ^ nat (e + 1022)) * quantum"
    unfolding n(2) powi_quantum [OF n(1)] by simp
  then show ?thesis unfolding onGrid_def by blast
qed

lemma roundDouble_ge_minNormal:
  assumes "minNormal \<le> x"
  shows "minNormal \<le> roundDouble x"
proof -
  from assms minNormal_pos have "0 < x" by simp
  then obtain m e where n: "x = m * 2 powi e" "0 < m" "m < 2" "- 1022 \<le> e"
    "1 \<le> m \<or> e = - 1022"
    "roundDouble x = of_int (roundHalfEven (m * 2 ^ 52)) * 2 powi (e - 52)"
    by (rule roundDouble_normalised)
  have m1: "1 \<le> m"
  proof (rule ccontr)
    assume "\<not> 1 \<le> m"
    with n(5) have e: "e = - 1022" "m < 1" by simp_all
    have x: "x = m * minNormal" unfolding n(1) e(1) minNormal_def by (rule refl)
    have "m * minNormal < 1 * minNormal"
      using e(2) minNormal_pos by (rule mult_strict_right_mono)
    with assms x show False by simp
  qed
  have pos: "0 < (2::real) powi (e - 52)" by (rule zero_less_power_int) simp
  have "of_int (2 ^ 52) \<le> m * 2 ^ 52" using m1 by simp
  then have "(2 ^ 52 :: int) \<le> roundHalfEven (m * 2 ^ 52)" by (rule roundHalfEven_ge)
  then have "(of_int (2 ^ 52) :: real) \<le> of_int (roundHalfEven (m * 2 ^ 52))"
    by (simp only: of_int_le_iff)
  then have "(2 ^ 52 :: real) \<le> of_int (roundHalfEven (m * 2 ^ 52))"
    by simp
  then have "2 ^ 52 * 2 powi (e - 52) \<le> roundDouble x"
    unfolding n(6) using pos by (intro mult_right_mono) simp_all
  then have "2 powi e \<le> roundDouble x" by (simp only: powi_52 [symmetric])
  with minNormal_le_powi [OF n(4)] show ?thesis by simp
qed

lemma roundDouble_exact_subnormal:
  assumes "onGrid x" "0 \<le> x" "x < minNormal"
  shows "roundDouble x = x"
proof (cases "x = 0")
  case True
  then show ?thesis by (simp add: roundDouble_def)
next
  case False
  with assms(2) have "0 < x" by simp
  then obtain m e where n: "x = m * 2 powi e" "0 < m" "m < 2" "- 1022 \<le> e"
    "1 \<le> m \<or> e = - 1022"
    "roundDouble x = of_int (roundHalfEven (m * 2 ^ 52)) * 2 powi (e - 52)"
    by (rule roundDouble_normalised)
  have e: "e = - 1022"
  proof (rule ccontr)
    assume "e \<noteq> - 1022"
    with n(5) have "1 \<le> m" by simp
    moreover have "0 \<le> (2::real) powi e" by simp
    ultimately have "1 * 2 powi e \<le> m * 2 powi e" by (rule mult_right_mono)
    with minNormal_le_powi [OF n(4)] assms(3) show False unfolding n(1) [symmetric] by simp
  qed
  from assms(1) obtain k :: int where k: "x = of_int k * quantum"
    unfolding onGrid_def by blast
  have "x = m * minNormal" unfolding n(1) e minNormal_def by (rule refl)
  then have "x = m * 2 ^ 52 * quantum" by (simp only: minNormal_quantum mult.assoc)
  with k have "m * 2 ^ 52 * quantum = of_int k * quantum" by (simp only:)
  then have mk: "m * 2 ^ 52 = of_int k" using quantum_pos by simp
  have q: "(2::real) powi (e - 52) = quantum"
    unfolding e quantum_def by simp
  show ?thesis unfolding n(6) mk q roundHalfEven_int using k by simp
qed

lemma minNormal_small: "minNormal \<le> 1 / 2 ^ 53"
proof -
  have "(2::real) powi (- 1022) \<le> 2 powi (- int 53)"
    by (rule power_int_increasing) simp_all
  moreover have "(2::real) powi (- int 53) = inverse (2 powi (int 53))"
    by (rule power_int_minus)
  ultimately have "minNormal \<le> inverse (2 ^ 53)"
    by (simp only: minNormal_def power_int_of_nat)
  then show ?thesis by (simp only: inverse_eq_divide)
qed

lemma roundDouble_bounds:
  assumes "0 \<le> x"
  shows "x - x / 2 ^ 53 - minNormal / 2 ^ 53 \<le> roundDouble x"
    and "roundDouble x \<le> x + x / 2 ^ 53 + minNormal / 2 ^ 53"
proof -
  have "max x minNormal \<le> x + minNormal" using assms minNormal_pos by simp
  then have "unitRoundoff * max x minNormal \<le> unitRoundoff * (x + minNormal)"
    by (intro mult_left_mono) (simp_all add: unitRoundoff_def)
  with roundDouble_error [OF assms]
  have "\<bar>roundDouble x - x\<bar> \<le> unitRoundoff * (x + minNormal)" by (rule order_trans)
  then have "\<bar>roundDouble x - x\<bar> \<le> (x + minNormal) / 2 ^ 53"
    by (simp only: unitRoundoff_def times_divide_eq_left mult_1)
  then show "x - x / 2 ^ 53 - minNormal / 2 ^ 53 \<le> roundDouble x"
    and "roundDouble x \<le> x + x / 2 ^ 53 + minNormal / 2 ^ 53"
    by (simp_all only: abs_le_iff add_divide_distrib) linarith+
qed

lemma isDouble_onGrid: "isDouble x \<Longrightarrow> 0 \<le> x \<Longrightarrow> onGrid x"
  using roundDouble_onGrid [of x] by (simp add: isDouble_def)

text \<open>The computed total of three non-negative doubles is within 5 units of roundoff of their sum.\<close>

lemma total_error:
  assumes d: "isDouble p" "isDouble v" "isDouble c"
    and nn: "0 \<le> p" "0 \<le> v" "0 \<le> c"
  shows "\<bar>fadd (fadd p v) c - (p + v + c)\<bar> \<le> 5 * fadd (fadd p v) c / 2 ^ 53"
    and "0 \<le> fadd (fadd p v) c"
proof -
  define s0 where "s0 = fadd p v"
  define t where "t = fadd s0 c"
  have s0: "0 \<le> s0" unfolding s0_def fadd_def using nn by (intro roundDouble_nonneg) simp
  then have t: "0 \<le> t" unfolding t_def fadd_def using nn by (intro roundDouble_nonneg) simp
  have pv: "0 \<le> p + v" using nn by simp
  have sc: "0 \<le> s0 + c" using nn s0 by simp
  note a = roundDouble_bounds [OF pv, folded fadd_def, folded s0_def, unfolded add_divide_distrib]
  note b = roundDouble_bounds [OF sc, folded fadd_def, folded t_def, unfolded add_divide_distrib]
  have "\<bar>t - (p + v + c)\<bar> \<le> 5 * t / 2 ^ 53"
  proof (cases "minNormal \<le> t")
    case True
    have "t - (p + v + c) \<le> 5 * t / 2 ^ 53" using a b nn s0 True by simp
    moreover have "- (t - (p + v + c)) \<le> 5 * t / 2 ^ 53" using a b nn s0 True by simp
    ultimately show ?thesis by (rule abs_leI)
  next
    case False
    have sc: "s0 + c < minNormal"
    proof (rule ccontr)
      assume "\<not> s0 + c < minNormal"
      then have "minNormal \<le> roundDouble (s0 + c)" by (intro roundDouble_ge_minNormal) simp
      with False show False by (simp add: t_def fadd_def)
    qed
    have pv: "p + v < minNormal"
    proof (rule ccontr)
      assume "\<not> p + v < minNormal"
      then have "minNormal \<le> roundDouble (p + v)" by (intro roundDouble_ge_minNormal) simp
      with sc nn show False by (simp add: s0_def fadd_def)
    qed
    have g: "onGrid p" "onGrid v" "onGrid c"
      using d nn by (simp_all add: isDouble_onGrid)
    have e0: "s0 = p + v"
      unfolding s0_def fadd_def using g nn pv
      by (intro roundDouble_exact_subnormal onGrid_add) simp_all
    have "onGrid (s0 + c)" unfolding e0 using g by (intro onGrid_add)
    then have "t = s0 + c"
      unfolding t_def fadd_def using s0 nn sc by (intro roundDouble_exact_subnormal) simp_all
    with e0 t show ?thesis by simp
  qed
  then show "\<bar>fadd (fadd p v) c - (p + v + c)\<bar> \<le> 5 * fadd (fadd p v) c / 2 ^ 53"
    by (simp only: t_def s0_def)
  show "0 \<le> fadd (fadd p v) c" using t by (simp only: t_def s0_def)
qed

text \<open>Three non-negative quotients whose exact sum is close to 1, rounded and then added
  as the program adds them.\<close>

lemma rounded_sum_error:
  assumes q: "0 \<le> qp" "0 \<le> qv" "0 \<le> qc"
    and Q: "\<bar>qp + qv + qc - 1\<bar> \<le> 5 / 2 ^ 53"
  shows "\<bar>roundDouble qp + roundDouble qv + roundDouble qc - 1\<bar> \<le> 1 / 2 ^ 50"
    and "\<bar>fadd (fadd (roundDouble qp) (roundDouble qv)) (roundDouble qc) - 1\<bar> \<le> 1 / 2 ^ 49"
proof -
  define p' where "p' = roundDouble qp"
  define v' where "v' = roundDouble qv"
  define c' where "c' = roundDouble qc"
  define s1 where "s1 = fadd p' v'"
  define s where "s = fadd s1 c'"
  have nn: "0 \<le> p'" "0 \<le> v'" "0 \<le> c'"
    unfolding p'_def v'_def c'_def using q by (simp_all add: roundDouble_nonneg)
  then have s1: "0 \<le> s1" unfolding s1_def fadd_def by (intro roundDouble_nonneg) simp
  have pv: "0 \<le> p' + v'" using nn by simp
  have sc: "0 \<le> s1 + c'" using nn s1 by simp
  note ep = roundDouble_bounds [OF q(1), folded p'_def]
  note ev = roundDouble_bounds [OF q(2), folded v'_def]
  note ec = roundDouble_bounds [OF q(3), folded c'_def]
  note e1 = roundDouble_bounds [OF pv, folded fadd_def, folded s1_def, unfolded add_divide_distrib]
  note e2 = roundDouble_bounds [OF sc, folded fadd_def, folded s_def, unfolded add_divide_distrib]
  note mu = minNormal_pos minNormal_small
  from Q have Q2: "qp + qv + qc - 1 \<le> 5 / 2 ^ 53" "- (qp + qv + qc - 1) \<le> 5 / 2 ^ 53"
    by (simp_all only: abs_le_iff)
  have "p' + v' + c' - 1 \<le> 1 / 2 ^ 50" using ep ev ec Q2 q mu by simp
  moreover have "- (p' + v' + c' - 1) \<le> 1 / 2 ^ 50" using ep ev ec Q2 q mu by simp
  ultimately have r1: "\<bar>p' + v' + c' - 1\<bar> \<le> 1 / 2 ^ 50" by (rule abs_leI)
  have "s - 1 \<le> 1 / 2 ^ 49" using ep ev ec e1 e2 Q2 q nn s1 mu by simp
  moreover have "- (s - 1) \<le> 1 / 2 ^ 49" using ep ev ec e1 e2 Q2 q nn s1 mu by simp
  ultimately have r2: "\<bar>s - 1\<bar> \<le> 1 / 2 ^ 49" by (rule abs_leI)
  from r1 show "\<bar>roundDouble qp + roundDouble qv + roundDouble qc - 1\<bar> \<le> 1 / 2 ^ 50"
    by (simp only: p'_def v'_def c'_def)
  from r2 show "\<bar>fadd (fadd (roundDouble qp) (roundDouble qv)) (roundDouble qc) - 1\<bar> \<le> 1 / 2 ^ 49"
    by (simp only: p'_def v'_def c'_def s1_def s_def)
qed

text \<open>
  Claim C6, as the code has it. For a triple of doubles \<open>\<ge> 0\<close> whose total, computed in
  doubles, is finite: if the total is not 0, each output entry is the input entry divided
  by the total in doubles, and the three outputs sum to 1 up to rounding, within \<open>2^-49\<close>
  when they are added in doubles and within \<open>2^-50\<close> as exact numbers; if the total is 0,
  the output is the input. The outputs are \<open>\<ge> 0\<close>.
\<close>

theorem normalized_weights_sum_to_one_up_to_rounding:
  assumes "isDouble (a_public a)" "isDouble (a_private a)" "isDouble (a_cash a)"
    and "0 \<le> a_public a" "0 \<le> a_private a" "0 \<le> a_cash a"
    and "fadd (fadd (a_public a) (a_private a)) (a_cash a) < 2 ^ 1024"
  shows "(fadd (fadd (a_public a) (a_private a)) (a_cash a) \<noteq> 0 \<longrightarrow>
            normalizeAllocationDouble a
              = \<lparr> a_public = fdiv (a_public a) (fadd (fadd (a_public a) (a_private a)) (a_cash a)),
                  a_private = fdiv (a_private a) (fadd (fadd (a_public a) (a_private a)) (a_cash a)),
                  a_cash = fdiv (a_cash a) (fadd (fadd (a_public a) (a_private a)) (a_cash a)) \<rparr>
            \<and> \<bar>fadd (fadd (a_public (normalizeAllocationDouble a))
                           (a_private (normalizeAllocationDouble a)))
                     (a_cash (normalizeAllocationDouble a)) - 1\<bar> \<le> 1 / 2 ^ 49
            \<and> \<bar>a_public (normalizeAllocationDouble a) + a_private (normalizeAllocationDouble a)
                 + a_cash (normalizeAllocationDouble a) - 1\<bar> \<le> 1 / 2 ^ 50)
       \<and> (fadd (fadd (a_public a) (a_private a)) (a_cash a) = 0 \<longrightarrow>
            normalizeAllocationDouble a = a)
       \<and> 0 \<le> a_public (normalizeAllocationDouble a)
       \<and> 0 \<le> a_private (normalizeAllocationDouble a)
       \<and> 0 \<le> a_cash (normalizeAllocationDouble a)"
proof -
  define p where "p = a_public a"
  define v where "v = a_private a"
  define c where "c = a_cash a"
  define t where "t = fadd (fadd p v) c"
  note nn = assms(4,5,6) [folded p_def v_def c_def]
  note te = total_error [OF assms(1,2,3) assms(4,5,6), folded p_def v_def c_def, folded t_def]
  have zero: "normalizeAllocationDouble a = a" if "t = 0"
    using that by (simp add: normalizeAllocationDouble_def Let_def t_def p_def v_def c_def)
  have out: "normalizeAllocationDouble a
               = \<lparr> a_public = fdiv p t, a_private = fdiv v t, a_cash = fdiv c t \<rparr>" if "t \<noteq> 0"
    using that by (simp add: normalizeAllocationDouble_def Let_def t_def p_def v_def c_def)
  have near: "\<bar>fadd (fadd (fdiv p t) (fdiv v t)) (fdiv c t) - 1\<bar> \<le> 1 / 2 ^ 49"
    "\<bar>fdiv p t + fdiv v t + fdiv c t - 1\<bar> \<le> 1 / 2 ^ 50" if "t \<noteq> 0"
  proof -
    from that te(2) have tpos: "0 < t" by simp
    have q: "0 \<le> p / t" "0 \<le> v / t" "0 \<le> c / t" using nn tpos by simp_all
    have "p / t + v / t + c / t - 1 = (p + v + c - t) / t"
      using tpos by (simp add: field_simps)
    then have "\<bar>p / t + v / t + c / t - 1\<bar> = \<bar>t - (p + v + c)\<bar> / t"
      using tpos by (simp add: abs_minus_commute)
    also have "\<dots> \<le> (5 * t / 2 ^ 53) / t"
      using te(1) tpos by (intro divide_right_mono) simp_all
    also have "\<dots> = 5 / 2 ^ 53" using tpos by simp
    finally have Q: "\<bar>p / t + v / t + c / t - 1\<bar> \<le> 5 / 2 ^ 53" .
    from rounded_sum_error [OF q Q]
    show "\<bar>fadd (fadd (fdiv p t) (fdiv v t)) (fdiv c t) - 1\<bar> \<le> 1 / 2 ^ 49"
      "\<bar>fdiv p t + fdiv v t + fdiv c t - 1\<bar> \<le> 1 / 2 ^ 50"
      by (simp_all only: fdiv_def)
  qed
  have pos: "0 \<le> a_public (normalizeAllocationDouble a)"
    "0 \<le> a_private (normalizeAllocationDouble a)" "0 \<le> a_cash (normalizeAllocationDouble a)"
  proof -
    have "0 \<le> fdiv p t" "0 \<le> fdiv v t" "0 \<le> fdiv c t"
      unfolding fdiv_def using nn te(2) by (simp_all add: roundDouble_nonneg)
    then show "0 \<le> a_public (normalizeAllocationDouble a)"
      "0 \<le> a_private (normalizeAllocationDouble a)" "0 \<le> a_cash (normalizeAllocationDouble a)"
      using zero out assms(4,5,6) by (cases "t = 0"; simp)+
  qed
  show ?thesis
    using zero out near pos
    unfolding t_def p_def v_def c_def by (cases "t = 0") (simp_all add: t_def p_def v_def c_def)
qed

text \<open>The weights 60 : 30 : 10: three doubles with the total 100.\<close>

theorem normalized_weights_sum_to_one_up_to_rounding_witness:
  "isDouble 60 \<and> isDouble 30 \<and> isDouble 10
   \<and> fadd (fadd 60 30) 10 = 100
   \<and> normalizeAllocationDouble sixtyThirtyTen
       = \<lparr> a_public = fdiv 60 100, a_private = fdiv 30 100, a_cash = fdiv 10 100 \<rparr>
   \<and> \<bar>fadd (fadd (a_public (normalizeAllocationDouble sixtyThirtyTen))
                   (a_private (normalizeAllocationDouble sixtyThirtyTen)))
             (a_cash (normalizeAllocationDouble sixtyThirtyTen)) - 1\<bar> \<le> 1 / 2 ^ 49"
proof -
  have d: "isDouble 60" "isDouble 30" "isDouble 10"
    by code_simp+
  have t: "fadd (fadd 60 30) 10 = 100"
    by code_simp
  have f: "a_public sixtyThirtyTen = 60" "a_private sixtyThirtyTen = 30"
    "a_cash sixtyThirtyTen = 10"
    by (simp_all add: sixtyThirtyTen_def)
  from normalized_weights_sum_to_one_up_to_rounding [of sixtyThirtyTen] d t
  show ?thesis unfolding f by auto
qed

text \<open>
  Claim C6 as stated fails: for the weights 60 : 30 : 10 the outputs are the doubles nearest
  to 0.6, 0.3 and 0.1, and they sum to \<open>1 - 2^-53\<close> = 0.9999999999999999 in doubles; their
  exact sum is not 1 either.
\<close>

theorem normalized_weights_sum_counterexample:
  "normalizeAllocationDouble sixtyThirtyTen
     = \<lparr> a_public = 5404319552844595 / 2 ^ 53, a_private = 5404319552844595 / 2 ^ 54,
         a_cash = 3602879701896397 / 2 ^ 55 \<rparr>
   \<and> fadd (fadd (a_public (normalizeAllocationDouble sixtyThirtyTen))
               (a_private (normalizeAllocationDouble sixtyThirtyTen)))
         (a_cash (normalizeAllocationDouble sixtyThirtyTen)) = 1 - 1 / 2 ^ 53
   \<and> a_public (normalizeAllocationDouble sixtyThirtyTen)
       + a_private (normalizeAllocationDouble sixtyThirtyTen)
       + a_cash (normalizeAllocationDouble sixtyThirtyTen) \<noteq> 1"
  by code_simp

section \<open>Monte Carlo: the ruin probability\<close>

lemma countRuined_foldl:
  "foldl (\<lambda>ruinCount trajectory.
            if findIndex (\<lambda>w. w \<le> 0) trajectory \<noteq> - 1 then ruinCount + 1 else ruinCount) c ps
     = c + length (filter (\<lambda>trajectory. \<exists>w \<in> set trajectory. w \<le> (0::real)) ps)"
  by (induction ps arbitrary: c) (simp_all add: findIndex_none)

lemma countRuined_eq:
  "countRuined ps = length (filter (\<lambda>trajectory. \<exists>w \<in> set trajectory. w \<le> 0) ps)"
  by (simp add: countRuined_def countRuined_foldl)

declare padTrajectory.simps [simp del]

text \<open>Padding repeats the last value: it adds no new value to a non-empty trajectory.\<close>

lemma padTrajectory_set:
  "trajectory \<noteq> [] \<Longrightarrow> set (padTrajectory trajectory n) = set trajectory"
proof (induction trajectory n rule: padTrajectory.induct)
  case (1 trajectory n)
  show ?case
  proof (cases "length trajectory < n")
    case True
    from "1.IH" [OF True] "1.prems"
    have "set (padTrajectory (trajectory @ [last trajectory]) n)
            = set (trajectory @ [last trajectory])"
      by simp
    moreover have "padTrajectory trajectory n
                     = padTrajectory (trajectory @ [last trajectory]) n"
      using True "1.prems" by (subst padTrajectory.simps) simp
    ultimately show ?thesis using "1.prems" by auto
  next
    case False
    then show ?thesis by (subst padTrajectory.simps) simp
  qed
qed

lemma rows_nonempty: "rows (simulateDeterministic p) \<noteq> []"
  using yearLoop_shape [of 0 "horizonYears p" p "normalizeAllocation (assetAlloc p)"
        "calls (generatePrivateSchedules (privCommit p) (horizonYears p))"
        "distributions (generatePrivateSchedules (privCommit p) (horizonYears p))"
        "startWealth p" "startWealth p * clamp (liquidShare p) 0 1" "annualExpenseNow p"]
  by (simp add: rows_simulateDeterministic Let_def)

lemma monteCarloPath_ruined:
  "(\<exists>w \<in> set (monteCarloPath p draws a years i). w \<le> 0)
     \<longleftrightarrow> (\<exists>r \<in> set (rows (simulateDeterministic
                             ((randomizedParams p draws i)\<lparr> assetAlloc := a \<rparr>))).
            wealth r \<le> 0)"
  by (simp add: monteCarloPath_def Let_def padTrajectory_set rows_nonempty)

text \<open>
  Claim C8. The engine generates \<open>min(numPaths, 2000)\<close> paths, and \<open>ruinProbability\<close> is the
  number of generated paths that contain a value \<open>\<le> 0\<close> divided by the number of paths (and
  0 when no path is run); it lies in \<open>[0, 1]\<close>. A generated path contains a value \<open>\<le> 0\<close>
  exactly when a row of its simulation has wealth \<open>\<le> 0\<close>: the padding changes nothing.
  The draws of the random generator are a parameter: the statement holds for every
  sequence of draws.
\<close>

theorem ruin_probability_is_fraction_of_ruined_paths:
  "length (paths (simulateMonteCarlo p draws)) = min (numPaths p) 2000
   \<and> ruinProbability (simulateMonteCarlo p draws)
       = (if min (numPaths p) 2000 = 0 then 0
          else real (length (filter (\<lambda>trajectory. \<exists>w \<in> set trajectory. w \<le> 0)
                               (paths (simulateMonteCarlo p draws))))
               / real (min (numPaths p) 2000))
   \<and> 0 \<le> ruinProbability (simulateMonteCarlo p draws)
   \<and> ruinProbability (simulateMonteCarlo p draws) \<le> 1
   \<and> (\<forall>i < min (numPaths p) 2000.
         (\<exists>w \<in> set (paths (simulateMonteCarlo p draws) ! i). w \<le> 0)
         \<longleftrightarrow> (\<exists>r \<in> set (rows (simulateDeterministic
                       ((randomizedParams p draws i)
                          \<lparr> assetAlloc := normalizeAllocation (assetAlloc p) \<rparr>))).
                wealth r \<le> 0))"
proof -
  define ps where "ps = paths (simulateMonteCarlo p draws)"
  define n where "n = min (numPaths p) 2000"
  define k where "k = length (filter (\<lambda>trajectory. \<exists>w \<in> set trajectory. w \<le> 0) ps)"
  have ps: "ps = map (\<lambda>pathIdx. monteCarloPath p draws (normalizeAllocation (assetAlloc p))
                                  (horizonYears p) pathIdx) [0 ..< n]"
    by (simp add: ps_def n_def simulateMonteCarlo_def Let_def MAX_MONTE_CARLO_PATHS_def)
  have len: "length ps = n"
    by (simp add: ps)
  have rp: "ruinProbability (simulateMonteCarlo p draws) = (if n = 0 then 0 else real k / real n)"
    unfolding k_def ps_def n_def
    by (simp add: simulateMonteCarlo_def Let_def MAX_MONTE_CARLO_PATHS_def countRuined_eq)
  have "k \<le> n" unfolding k_def len [symmetric] by (rule length_filter_le)
  then have range: "0 \<le> (if n = 0 then 0 else real k / real n)"
    "(if n = 0 then 0 else real k / real n) \<le> 1"
    by (simp_all add: divide_le_eq)
  have each: "(\<exists>w \<in> set (ps ! i). w \<le> 0)
         \<longleftrightarrow> (\<exists>r \<in> set (rows (simulateDeterministic
                       ((randomizedParams p draws i)
                          \<lparr> assetAlloc := normalizeAllocation (assetAlloc p) \<rparr>))).
                wealth r \<le> 0)" if "i < n" for i
    using that by (simp add: ps monteCarloPath_ruined)
  from len rp range each show ?thesis unfolding ps_def n_def k_def by simp
qed

text \<open>Two paths, the first one crashed by its draws: one ruined path of two.\<close>

theorem ruin_probability_is_fraction_of_ruined_paths_witness:
  "length (paths (simulateMonteCarlo twoPaths crashFirst)) = 2
   \<and> length (filter (\<lambda>trajectory. \<exists>w \<in> set trajectory. w \<le> 0)
                (paths (simulateMonteCarlo twoPaths crashFirst))) = 1
   \<and> ruinProbability (simulateMonteCarlo twoPaths crashFirst) = 1 / 2"
proof -
  have n: "numPaths twoPaths = 2"
    by (simp add: twoPaths_def)
  have k: "length (filter (\<lambda>trajectory. \<exists>w \<in> set trajectory. w \<le> 0)
                (paths (simulateMonteCarlo twoPaths crashFirst))) = 1"
    by code_simp
  from ruin_probability_is_fraction_of_ruined_paths [of twoPaths crashFirst] n k
  show ?thesis by simp
qed

section \<open>The reverse solver\<close>

declare searchLoop.simps [simp del]

lemma searchLoop_unfold:
  "iter < maxIterations \<Longrightarrow>
   searchLoop p iter low high bestGuess bestResult =
     (if \<bar>finalWealthOf (rows (simulateDeterministic (p\<lparr> startWealth := (low + high) / 2 \<rparr>)))
           - desiredTerminalWealth p\<bar> < tolerance
      then ((low + high) / 2,
            Some (simulateDeterministic (p\<lparr> startWealth := (low + high) / 2 \<rparr>)), iter)
      else if finalWealthOf (rows (simulateDeterministic (p\<lparr> startWealth := (low + high) / 2 \<rparr>)))
                - desiredTerminalWealth p > 0
      then searchLoop p (Suc iter) low ((low + high) / 2) ((low + high) / 2)
             (Some (simulateDeterministic (p\<lparr> startWealth := (low + high) / 2 \<rparr>)))
      else searchLoop p (Suc iter) ((low + high) / 2) high ((low + high) / 2)
             (Some (simulateDeterministic (p\<lparr> startWealth := (low + high) / 2 \<rparr>))))"
  by (subst searchLoop.simps) (simp only: Let_def if_True)

lemma searchLoop_exhausted:
  "\<not> iter < maxIterations \<Longrightarrow>
   searchLoop p iter low high bestGuess bestResult = (bestGuess, bestResult, iter)"
  by (subst searchLoop.simps) (simp only: if_False)

lemma searchLoop_result:
  "searchLoop p iter low high bestGuess bestResult = (g, r, k) \<Longrightarrow>
     iter < maxIterations \<Longrightarrow>
     k \<le> maxIterations \<and> iter \<le> k
     \<and> r = Some (simulateDeterministic (p\<lparr> startWealth := g \<rparr>))
     \<and> (k < maxIterations \<longrightarrow>
          \<bar>finalWealthOf (rows (simulateDeterministic (p\<lparr> startWealth := g \<rparr>)))
             - desiredTerminalWealth p\<bar> < tolerance)
     \<and> (low \<le> high \<longrightarrow> low \<le> g \<and> g \<le> high)"
proof (induction p iter low high bestGuess bestResult rule: searchLoop.induct)
  case (1 params iter low high bestGuess bestResult)
  define guess where "guess = (low + high) / 2"
  define result where "result = simulateDeterministic (params\<lparr> startWealth := guess \<rparr>)"
  define diff where "diff = finalWealthOf (rows result) - desiredTerminalWealth params"
  have mid: "low \<le> high \<Longrightarrow> low \<le> guess \<and> guess \<le> high"
    by (simp add: guess_def)
  have unf: "searchLoop params iter low high bestGuess bestResult =
     (if \<bar>diff\<bar> < tolerance then (guess, Some result, iter)
      else if diff > 0 then searchLoop params (Suc iter) low guess guess (Some result)
      else searchLoop params (Suc iter) guess high guess (Some result))"
    unfolding diff_def result_def guess_def using "1.prems"(2) by (rule searchLoop_unfold)
  show ?case
  proof (cases "\<bar>diff\<bar> < tolerance")
    case True
    with "1.prems"(1) unf have "g = guess" "r = Some result" "k = iter"
      by simp_all
    with True "1.prems"(2) mid show ?thesis
      by (simp add: result_def diff_def)
  next
    case False
    note notnear = False
    show ?thesis
    proof (cases "Suc iter < maxIterations")
      case True
      show ?thesis
      proof (cases "diff > 0")
        case pos: True
        with notnear "1.prems"(1) unf
        have eq: "searchLoop params (Suc iter) low guess guess (Some result) = (g, r, k)"
          by simp
        have "k \<le> maxIterations \<and> Suc iter \<le> k
               \<and> r = Some (simulateDeterministic (params\<lparr> startWealth := g \<rparr>))
               \<and> (k < maxIterations \<longrightarrow>
                    \<bar>finalWealthOf (rows (simulateDeterministic (params\<lparr> startWealth := g \<rparr>)))
                       - desiredTerminalWealth params\<bar> < tolerance)
               \<and> (low \<le> guess \<longrightarrow> low \<le> g \<and> g \<le> guess)"
          by (rule "1.IH"(1) [OF "1.prems"(2) guess_def refl result_def refl diff_def
                notnear pos eq True])
        with mid show ?thesis by auto
      next
        case neg: False
        with notnear "1.prems"(1) unf
        have eq: "searchLoop params (Suc iter) guess high guess (Some result) = (g, r, k)"
          by simp
        have "k \<le> maxIterations \<and> Suc iter \<le> k
               \<and> r = Some (simulateDeterministic (params\<lparr> startWealth := g \<rparr>))
               \<and> (k < maxIterations \<longrightarrow>
                    \<bar>finalWealthOf (rows (simulateDeterministic (params\<lparr> startWealth := g \<rparr>)))
                       - desiredTerminalWealth params\<bar> < tolerance)
               \<and> (guess \<le> high \<longrightarrow> guess \<le> g \<and> g \<le> high)"
          by (rule "1.IH"(2) [OF "1.prems"(2) guess_def refl result_def refl diff_def
                notnear neg eq True])
        with mid show ?thesis by auto
      qed
    next
      case last: False
      have stop: "searchLoop params (Suc iter) lo hi guess (Some result) = (guess, Some result, Suc iter)" for lo hi
        using last by (rule searchLoop_exhausted)
      from notnear "1.prems"(1) unf stop have "g = guess" "r = Some result" "k = Suc iter"
        by (simp_all split: if_splits)
      with last "1.prems"(2) mid show ?thesis
        by (simp add: result_def)
    qed
  qed
qed


lemma initialBounds_ordered: "fst (initialBounds p) \<le> snd (initialBounds p)"
  by (simp add: initialBounds_def Let_def max_def)

text \<open>
  Claim C9. The search starts from \<open>low = 0\<close>, \<open>high = 1,000,000,000\<close>, or, for a positive
  \<open>lifetimeSpendingTotal\<close>, from \<open>low = max(0, 0.5 (lifetimeSpendingTotal + desiredTerminalWealth))\<close>
  and \<open>high = max(1,000,000,000, 2 (lifetimeSpendingTotal + desiredTerminalWealth))\<close>. The loop is
  left at an iteration index \<open>k \<le> 50\<close> with the last midpoint and the result of the
  simulator on it; leaving before 50 means the terminal wealth is less than 1,000 away
  from the goal (the code's test is the strict \<open>|diff| < 1000\<close>). The solver returns that
  midpoint, which lies between the initial bounds, with the rows and terminal wealth of its
  simulation. One iteration (index below 50) simulates the midpoint, stops when it is within
  the tolerance, and otherwise continues with the midpoint as the new high bound when the
  terminal wealth is above the goal and as the new low bound when it is not; from index 50
  on the loop does nothing.
\<close>

theorem reverse_solver_spec:
  "initialBounds p =
     (if lifetimeSpendingTotal p > 0
      then (max 0 (0.5 * (lifetimeSpendingTotal p + desiredTerminalWealth p)),
            max 1000000000 (2 * (lifetimeSpendingTotal p + desiredTerminalWealth p)))
      else (0, 1000000000))
   \<and> (\<exists>k \<le> 50.
         searchLoop p 0 (fst (initialBounds p)) (snd (initialBounds p)) 0 None
           = (requiredStartingWealth (calculateReverse p),
              Some (simulateDeterministic
                      (p\<lparr> startWealth := requiredStartingWealth (calculateReverse p) \<rparr>)),
              k)
         \<and> (k < 50 \<longrightarrow>
               \<bar>calculatedTerminalWealth (calculateReverse p) - desiredTerminalWealth p\<bar> < 1000))
   \<and> r_rows (calculateReverse p)
       = rows (simulateDeterministic
                 (p\<lparr> startWealth := requiredStartingWealth (calculateReverse p) \<rparr>))
   \<and> calculatedTerminalWealth (calculateReverse p) = finalWealthOf (r_rows (calculateReverse p))
   \<and> fst (initialBounds p) \<le> requiredStartingWealth (calculateReverse p)
   \<and> requiredStartingWealth (calculateReverse p) \<le> snd (initialBounds p)
   \<and> (iter < 50 \<longrightarrow>
        searchLoop p iter low high bestGuess bestResult =
          (if \<bar>finalWealthOf (rows (simulateDeterministic (p\<lparr> startWealth := (low + high) / 2 \<rparr>)))
                - desiredTerminalWealth p\<bar> < 1000
           then ((low + high) / 2,
                 Some (simulateDeterministic (p\<lparr> startWealth := (low + high) / 2 \<rparr>)), iter)
           else if finalWealthOf
                     (rows (simulateDeterministic (p\<lparr> startWealth := (low + high) / 2 \<rparr>)))
                   - desiredTerminalWealth p > 0
           then searchLoop p (Suc iter) low ((low + high) / 2) ((low + high) / 2)
                  (Some (simulateDeterministic (p\<lparr> startWealth := (low + high) / 2 \<rparr>)))
           else searchLoop p (Suc iter) ((low + high) / 2) high ((low + high) / 2)
                  (Some (simulateDeterministic (p\<lparr> startWealth := (low + high) / 2 \<rparr>)))))
   \<and> (50 \<le> iter \<longrightarrow>
        searchLoop p iter low high bestGuess bestResult = (bestGuess, bestResult, iter))"
proof -
  obtain g r k
    where run: "searchLoop p 0 (fst (initialBounds p)) (snd (initialBounds p)) 0 None = (g, r, k)"
    by (metis prod_cases3)
  have pos: "0 < maxIterations" by (simp add: maxIterations_def)
  from searchLoop_result [OF run pos] initialBounds_ordered [of p]
  have res: "k \<le> 50" "r = Some (simulateDeterministic (p\<lparr> startWealth := g \<rparr>))"
    "k < 50 \<longrightarrow> \<bar>finalWealthOf (rows (simulateDeterministic (p\<lparr> startWealth := g \<rparr>)))
                    - desiredTerminalWealth p\<bar> < 1000"
    "fst (initialBounds p) \<le> g" "g \<le> snd (initialBounds p)"
    by (simp_all add: maxIterations_def tolerance_def)
  have cr: "requiredStartingWealth (calculateReverse p) = g"
    "r_rows (calculateReverse p) = rows (simulateDeterministic (p\<lparr> startWealth := g \<rparr>))"
    "calculatedTerminalWealth (calculateReverse p)
       = finalWealthOf (rows (simulateDeterministic (p\<lparr> startWealth := g \<rparr>)))"
    by (simp_all add: calculateReverse_def run res(2) Let_def)
  have bounds: "initialBounds p =
     (if lifetimeSpendingTotal p > 0
      then (max 0 (0.5 * (lifetimeSpendingTotal p + desiredTerminalWealth p)),
            max 1000000000 (2 * (lifetimeSpendingTotal p + desiredTerminalWealth p)))
      else (0, 1000000000))"
    by (simp add: initialBounds_def Let_def mult.commute)
  have step: "iter < 50 \<longrightarrow>
        searchLoop p iter low high bestGuess bestResult =
          (if \<bar>finalWealthOf (rows (simulateDeterministic (p\<lparr> startWealth := (low + high) / 2 \<rparr>)))
                - desiredTerminalWealth p\<bar> < 1000
           then ((low + high) / 2,
                 Some (simulateDeterministic (p\<lparr> startWealth := (low + high) / 2 \<rparr>)), iter)
           else if finalWealthOf
                     (rows (simulateDeterministic (p\<lparr> startWealth := (low + high) / 2 \<rparr>)))
                   - desiredTerminalWealth p > 0
           then searchLoop p (Suc iter) low ((low + high) / 2) ((low + high) / 2)
                  (Some (simulateDeterministic (p\<lparr> startWealth := (low + high) / 2 \<rparr>)))
           else searchLoop p (Suc iter) ((low + high) / 2) high ((low + high) / 2)
                  (Some (simulateDeterministic (p\<lparr> startWealth := (low + high) / 2 \<rparr>))))"
    using searchLoop_unfold [of iter p low high bestGuess bestResult]
    unfolding maxIterations_def tolerance_def by (rule impI)
  have exhausted: "50 \<le> iter \<longrightarrow>
        searchLoop p iter low high bestGuess bestResult = (bestGuess, bestResult, iter)"
    using searchLoop_exhausted [of iter p low high bestGuess bestResult]
    by (simp add: maxIterations_def not_less)
  have ex: "\<exists>k \<le> 50.
         searchLoop p 0 (fst (initialBounds p)) (snd (initialBounds p)) 0 None
           = (requiredStartingWealth (calculateReverse p),
              Some (simulateDeterministic
                      (p\<lparr> startWealth := requiredStartingWealth (calculateReverse p) \<rparr>)),
              k)
         \<and> (k < 50 \<longrightarrow>
               \<bar>calculatedTerminalWealth (calculateReverse p) - desiredTerminalWealth p\<bar> < 1000)"
    unfolding cr using run res(1,2,3) by blast
  show ?thesis
    using bounds ex step exhausted res(4,5) unfolding cr by (intro conjI) simp_all
qed

text \<open>
  The goal 138,667,000 is met at the third midpoint: 500,000,000 and 250,000,000 end too
  high, 125,000,000 ends at 138,666,945.3, and the loop is left at index 2.
\<close>

theorem reverse_solver_spec_witness:
  "initialBounds reverseGoal = (0, 1000000000)
   \<and> initialBounds spendingGoal = (1069333500, 4277334000)
   \<and> searchLoop reverseGoal 0 0 1000000000 0 None
       = (125000000,
          Some (simulateDeterministic (reverseGoal\<lparr> startWealth := 125000000 \<rparr>)), 2)
   \<and> r_rows (calculateReverse reverseGoal)
       = rows (simulateDeterministic (reverseGoal\<lparr> startWealth := 125000000 \<rparr>))
   \<and> \<bar>calculatedTerminalWealth (calculateReverse reverseGoal) - 138667000\<bar> < 1000"
proof -
  have l: "lifetimeSpendingTotal reverseGoal = 0" "desiredTerminalWealth reverseGoal = 138667000"
    "lifetimeSpendingTotal spendingGoal = 2000000000"
    "desiredTerminalWealth spendingGoal = 138667000"
    by (simp_all add: spendingGoal_def reverseGoal_def exampleParams_def)
  have run: "case searchLoop reverseGoal 0 0 1000000000 0 None of
               (g, r, k) \<Rightarrow> g = 125000000 \<and> k = 2"
    by code_simp
  from reverse_solver_spec [of reverseGoal 0 0 0 0 None]
    reverse_solver_spec [of spendingGoal 0 0 0 0 None] l run
  show ?thesis by auto
qed

section \<open>Wealth without cashflows\<close>














end
